theory Spec2Isabelle
  imports Complex_Main "HOL-Library.AList" "HOL-Library.Sublist"
begin

section \<open>Python values\<close>

text \<open>
  The program of \<^verbatim>\<open>main.py\<close> handles whatever \<^verbatim>\<open>json.loads\<close> returns: \<^verbatim>\<open>None\<close>,
  booleans, integers, floats, strings, lists and dicts. A dict keeps its keys in insertion
  order, so it is an association list. A Python \<^verbatim>\<open>str\<close> is represented by its UTF-8
  bytes: the program only concatenates and compares strings, which is the same on bytes
  and on code points. A float is represented by the number it denotes; the program never
  computes with one.
\<close>

datatype pyval =
    PNone
  | PBool bool
  | PInt int
  | PFloat real
  | PStr string
  | PList "pyval list"
  | PDict "(string \<times> pyval) list"

text \<open>
  The exceptions that leave a function of the program. \<open>TransportError\<close> stands for
  whatever a call on the connection raises (\<^verbatim>\<open>OSError\<close>, \<^verbatim>\<open>http.client.HTTPException\<close>),
  with its text; \<open>RecursionError\<close> and \<open>ValueError\<close> are what \<^verbatim>\<open>json.loads\<close> can raise
  besides its own error. \<^verbatim>\<open>json.JSONDecodeError\<close> is not among them: the only place that
  raises it is inside the \<^verbatim>\<open>try\<close> that catches it.
\<close>

datatype exn =
    KeyError string
  | TypeError
  | AttributeError
  | UnicodeDecodeError
  | RecursionError
  | ValueError string
  | TransportError string

subsection \<open>Truth value, \<^verbatim>\<open>str\<close> and f-strings\<close>

fun py_truthy :: "pyval \<Rightarrow> bool" where
  "py_truthy PNone = False"
| "py_truthy (PBool b) = b"
| "py_truthy (PInt i) = (i \<noteq> 0)"
| "py_truthy (PFloat x) = (x \<noteq> 0)"
| "py_truthy (PStr s) = (s \<noteq> [])"
| "py_truthy (PList xs) = (xs \<noteq> [])"
| "py_truthy (PDict d) = (d \<noteq> [])"

definition digit :: "nat \<Rightarrow> char" where
  "digit d = ''0123456789'' ! d"

function str_nat :: "nat \<Rightarrow> string" where
  "str_nat n = (if n < 10 then [digit n] else str_nat (n div 10) @ [digit (n mod 10)])"
  by pat_completeness auto
termination
  by (relation "measure (\<lambda>n. n)") auto

definition str_int :: "int \<Rightarrow> string" where
  "str_int i = (if i < 0 then CHR ''-'' # str_nat (nat (- i)) else str_nat (nat i))"

text \<open>
  \<^verbatim>\<open>str(v)\<close>, which is also what an f-string field \<^verbatim>\<open>{v}\<close> inserts. The text of a
  float, a list or a dict is made by Python's \<^verbatim>\<open>repr\<close>, which is not part of this
  program: it is the parameter \<open>R\<close>.
\<close>

fun py_str :: "(pyval \<Rightarrow> string) \<Rightarrow> pyval \<Rightarrow> string" where
  "py_str R PNone = ''None''"
| "py_str R (PBool b) = (if b then ''True'' else ''False'')"
| "py_str R (PInt i) = str_int i"
| "py_str R (PStr s) = s"
| "py_str R v = R v"

subsection \<open>Subscripts, \<^verbatim>\<open>get\<close>, \<^verbatim>\<open>in\<close>, iteration\<close>

text \<open>\<^verbatim>\<open>v[k]\<close> for a string key \<open>k\<close>: only a dict can be subscripted by a string.\<close>

fun getitem :: "pyval \<Rightarrow> string \<Rightarrow> exn + pyval" where
  "getitem (PDict d) k = (case map_of d k of None \<Rightarrow> Inl (KeyError k) | Some v \<Rightarrow> Inr v)"
| "getitem v k = Inl TypeError"

text \<open>\<^verbatim>\<open>v[k] = x\<close>: an existing key keeps its place, a new key goes last.\<close>

fun setitem :: "pyval \<Rightarrow> string \<Rightarrow> pyval \<Rightarrow> exn + pyval" where
  "setitem (PDict d) k x = Inr (PDict (AList.update k x d))"
| "setitem v k x = Inl TypeError"

text \<open>\<^verbatim>\<open>v.get(k, default)\<close>: a method of dicts only.\<close>

fun py_get :: "pyval \<Rightarrow> string \<Rightarrow> pyval \<Rightarrow> exn + pyval" where
  "py_get (PDict d) k dflt = (case map_of d k of None \<Rightarrow> Inr dflt | Some v \<Rightarrow> Inr v)"
| "py_get v k dflt = Inl AttributeError"

text \<open>
  \<^verbatim>\<open>k in v\<close> for a string \<open>k\<close>: a key of a dict, an element of a list, a substring of a
  string; the other values are not containers.
\<close>

fun py_contains :: "string \<Rightarrow> pyval \<Rightarrow> exn + bool" where
  "py_contains k (PDict d) = Inr (k \<in> set (map fst d))"
| "py_contains k (PList xs) = Inr (PStr k \<in> set xs)"
| "py_contains k (PStr s) = Inr (sublist k s)"
| "py_contains k v = Inl TypeError"

text \<open>The characters of a string: a UTF-8 lead byte with its continuation bytes.\<close>

definition is_cont :: "char \<Rightarrow> bool" where
  "is_cont c = (128 \<le> (of_char c :: nat) \<and> (of_char c :: nat) < 192)"

function utf8_chars :: "string \<Rightarrow> string list" where
  "utf8_chars [] = []"
| "utf8_chars (c # cs) = (c # takeWhile is_cont cs) # utf8_chars (dropWhile is_cont cs)"
  by pat_completeness auto
termination
  by (relation "measure length") (auto simp: le_imp_less_Suc length_dropWhile_le)

text \<open>\<^verbatim>\<open>for x in v\<close>: the elements of a list, the keys of a dict, the characters of a string.\<close>

fun py_iter :: "pyval \<Rightarrow> exn + pyval list" where
  "py_iter (PList xs) = Inr xs"
| "py_iter (PDict d) = Inr (map (\<lambda>kv. PStr (fst kv)) d)"
| "py_iter (PStr s) = Inr (map PStr (utf8_chars s))"
| "py_iter v = Inl TypeError"

text \<open>A list comprehension \<^verbatim>\<open>[f(x) for x in xs]\<close>: it stops at the first exception.\<close>

fun comprehension :: "('a \<Rightarrow> exn + 'b) \<Rightarrow> 'a list \<Rightarrow> exn + 'b list" where
  "comprehension f [] = Inr []"
| "comprehension f (x # xs) =
     (case f x of
        Inl e \<Rightarrow> Inl e
      | Inr y \<Rightarrow> (case comprehension f xs of Inl e \<Rightarrow> Inl e | Inr ys \<Rightarrow> Inr (y # ys)))"

text \<open>\<^verbatim>\<open>sep.join(items)\<close>: every item must be a \<^verbatim>\<open>str\<close>.\<close>

fun as_strs :: "pyval list \<Rightarrow> exn + string list" where
  "as_strs [] = Inr []"
| "as_strs (PStr s # xs) = (case as_strs xs of Inl e \<Rightarrow> Inl e | Inr ss \<Rightarrow> Inr (s # ss))"
| "as_strs (v # xs) = Inl TypeError"

fun intercalate :: "string \<Rightarrow> string list \<Rightarrow> string" where
  "intercalate sep [] = []"
| "intercalate sep [s] = s"
| "intercalate sep (s # t # ss) = s @ sep @ intercalate sep (t # ss)"

definition str_join :: "string \<Rightarrow> pyval list \<Rightarrow> exn + pyval" where
  "str_join sep items =
     (case as_strs items of Inl e \<Rightarrow> Inl e | Inr ss \<Rightarrow> Inr (PStr (intercalate sep ss)))"

section \<open>The normalizer: \<^verbatim>\<open>tratar_dados_aninhados\<close>\<close>

text \<open>
  The function rewrites its argument in place and returns it. The argument is therefore a
  reference into a store of objects; the values inside an object are never mutated by this
  program and are held by value.
\<close>

type_synonym ref = nat
type_synonym heap = "ref \<Rightarrow> pyval"

text \<open>\<^verbatim>\<open>"; ".join([ativ['text'] for ativ in v])\<close>\<close>

definition join_texts :: "pyval \<Rightarrow> exn + pyval" where
  "join_texts v =
     (case py_iter v of
        Inl e \<Rightarrow> Inl e
      | Inr items \<Rightarrow>
          (case comprehension (\<lambda>ativ. getitem ativ ''text'') items of
             Inl e \<Rightarrow> Inl e
           | Inr texts \<Rightarrow> str_join ''; '' texts))"

text \<open>\<^verbatim>\<open>f"{q['nome']} ({q.get('qual', '')})"\<close>\<close>

definition qsa_entry :: "(pyval \<Rightarrow> string) \<Rightarrow> pyval \<Rightarrow> exn + pyval" where
  "qsa_entry R q =
     (case getitem q ''nome'' of
        Inl e \<Rightarrow> Inl e
      | Inr nome \<Rightarrow>
          (case py_get q ''qual'' (PStr []) of
             Inl e \<Rightarrow> Inl e
           | Inr qual \<Rightarrow> Inr (PStr (py_str R nome @ '' ('' @ py_str R qual @ '')''))))"

text \<open>\<^verbatim>\<open>"; ".join([f"..." for q in v])\<close>\<close>

definition join_qsa :: "(pyval \<Rightarrow> string) \<Rightarrow> pyval \<Rightarrow> exn + pyval" where
  "join_qsa R v =
     (case py_iter v of
        Inl e \<Rightarrow> Inl e
      | Inr items \<Rightarrow>
          (case comprehension (qsa_entry R) items of
             Inl e \<Rightarrow> Inl e
           | Inr entries \<Rightarrow> str_join ''; '' entries))"

text \<open>\<^verbatim>\<open>str(v)\<close> as a step that cannot fail.\<close>

definition to_str :: "(pyval \<Rightarrow> string) \<Rightarrow> pyval \<Rightarrow> exn + pyval" where
  "to_str R v = Inr (PStr (py_str R v))"

text \<open>
  One block of the function, \<^verbatim>\<open>if k in dados: dados[k] = f(dados[k])\<close>, on the object at
  \<open>r\<close>. The right-hand side is evaluated before the assignment; an exception leaves the
  store as it is.
\<close>

definition rewrite_field ::
  "(pyval \<Rightarrow> exn + pyval) \<Rightarrow> string \<Rightarrow> ref \<Rightarrow> heap \<Rightarrow> exn option \<times> heap" where
  "rewrite_field f k r h =
     (case py_contains k (h r) of
        Inl e \<Rightarrow> (Some e, h)
      | Inr False \<Rightarrow> (None, h)
      | Inr True \<Rightarrow>
          (case getitem (h r) k of
             Inl e \<Rightarrow> (Some e, h)
           | Inr v \<Rightarrow>
               (case f v of
                  Inl e \<Rightarrow> (Some e, h)
                | Inr v' \<Rightarrow>
                    (case setitem (h r) k v' of
                       Inl e \<Rightarrow> (Some e, h)
                     | Inr obj \<Rightarrow> (None, h(r := obj))))))"

text \<open>The blocks run one after the other; the first exception ends the run.\<close>

fun rewrite_fields ::
  "(string \<times> (pyval \<Rightarrow> exn + pyval)) list \<Rightarrow> ref \<Rightarrow> heap \<Rightarrow> exn option \<times> heap" where
  "rewrite_fields [] r h = (None, h)"
| "rewrite_fields ((k, f) # rest) r h =
     (case rewrite_field f k r h of
        (Some e, h') \<Rightarrow> (Some e, h')
      | (None, h') \<Rightarrow> rewrite_fields rest r h')"

text \<open>The five blocks of the source, in its order.\<close>

definition known_fields :: "(pyval \<Rightarrow> string) \<Rightarrow> (string \<times> (pyval \<Rightarrow> exn + pyval)) list" where
  "known_fields R =
     [(''atividade_principal'', join_texts),
      (''atividades_secundarias'', join_texts),
      (''qsa'', join_qsa R),
      (''billing'', to_str R),
      (''extra'', to_str R)]"

definition known_keys :: "string list" where
  "known_keys =
     [''atividade_principal'', ''atividades_secundarias'', ''qsa'', ''billing'', ''extra'']"

text \<open>
  The result is the exception raised, or the reference returned (\<^verbatim>\<open>return dados\<close>),
  with the store as the call leaves it.
\<close>

definition tratar_dados_aninhados :: "(pyval \<Rightarrow> string) \<Rightarrow> ref \<Rightarrow> heap \<Rightarrow> (exn + ref) \<times> heap" where
  "tratar_dados_aninhados R r h =
     (case rewrite_fields (known_fields R) r h of
        (Some e, h') \<Rightarrow> (Inl e, h')
      | (None, h') \<Rightarrow> (Inr r, h'))"

text \<open>
  The block of the key \<open>k\<close> of one of the two activity fields does not raise on the record
  \<open>d\<close>: the key is absent, or the join succeeds on its value.
\<close>

definition texts_block_ok :: "(string \<times> pyval) list \<Rightarrow> string \<Rightarrow> bool" where
  "texts_block_ok d k =
     (case map_of d k of
        None \<Rightarrow> True
      | Some v \<Rightarrow> (case join_texts v of Inl e \<Rightarrow> False | Inr s \<Rightarrow> True))"

section \<open>The exporter: \<^verbatim>\<open>salvar_dados_empresa_excel\<close>\<close>

text \<open>
  What the program does to the outside is recorded in order: console lines, the calls on
  the connection, the calls of \<^verbatim>\<open>json.loads\<close> and of the normalizer, and the writing of
  the spreadsheet.
\<close>

datatype event =
    Print string
  | NewConnection string
  | Request string string
  | GetResponse
  | ReadBody
  | CloseConnection
  | JsonLoads string
  | Normalize ref
  | ToExcel string

type_synonym sheet = "pyval list list"

record world =
  heap :: heap
  files :: "string \<rightharpoonup> sheet"
  trace :: "event list"

record dataframe =
  columns :: "string list"
  rows :: "pyval list list"

text \<open>
  Modelled from the spec: pandas is a library, not part of the repository.
  \<^verbatim>\<open>pd.DataFrame([v])\<close> for one record is the table whose columns are the record's keys
  in their order and whose single row is the record's values (spec 4.3). Only a dict
  arrives here: the guard has already called its \<^verbatim>\<open>get\<close>.
\<close>

fun data_frame :: "pyval \<Rightarrow> exn + dataframe" where
  "data_frame (PDict d) = Inr \<lparr>columns = map fst d, rows = [map snd d]\<rparr>"
| "data_frame v = Inl TypeError"

text \<open>
  Modelled from the spec: \<^verbatim>\<open>df.to_excel(nome, index=index)\<close> writes a header row and the
  data rows; with \<open>index\<close> every row gets a leading cell, the row's number (blank in the
  header).
\<close>

definition sheet_of :: "dataframe \<Rightarrow> bool \<Rightarrow> sheet" where
  "sheet_of df index =
     (if index
      then (PStr [] # map PStr (columns df)) #
           map (\<lambda>ir. PInt (int (fst ir)) # snd ir) (enumerate 0 (rows df))
      else map PStr (columns df) # rows df)"

definition default_nome_arquivo :: string where
  "default_nome_arquivo = ''dados_empresa.xlsx''"

text \<open>\<^verbatim>\<open>dados_empresa and dados_empresa.get('status') != 'ERROR'\<close>\<close>

definition export_guard :: "pyval \<Rightarrow> exn + bool" where
  "export_guard v =
     (if py_truthy v
      then (case py_get v ''status'' PNone of
              Inl e \<Rightarrow> Inl e
            | Inr s \<Rightarrow> Inr (s \<noteq> PStr ''ERROR''))
      else Inr False)"

definition saved_notice :: "string \<Rightarrow> string" where
  "saved_notice nome = ''Dados da empresa salvos com sucesso no arquivo '' @ nome"

definition skip_notice :: "string \<Rightarrow> string" where
  "skip_notice msg =
     ''N'' @ [CHR 0xC3, CHR 0xA3] @ ''o h'' @ [CHR 0xC3, CHR 0xA1] @ '' dados v'' @
     [CHR 0xC3, CHR 0xA1] @ ''lidos para salvar. Mensagem de erro: '' @ msg"

definition salvar_dados_empresa_excel ::
  "(pyval \<Rightarrow> string) \<Rightarrow> ref \<Rightarrow> string \<Rightarrow> world \<Rightarrow> (exn + unit) \<times> world" where
  "salvar_dados_empresa_excel R r nome w =
     (case export_guard (heap w r) of
        Inl e \<Rightarrow> (Inl e, w)
      | Inr True \<Rightarrow>
          (let w1 = w\<lparr>trace := trace w @ [Normalize r]\<rparr> in
           case tratar_dados_aninhados R r (heap w1) of
             (Inl e, h') \<Rightarrow> (Inl e, w1\<lparr>heap := h'\<rparr>)
           | (Inr r', h') \<Rightarrow>
               (case data_frame (h' r') of
                  Inl e \<Rightarrow> (Inl e, w1\<lparr>heap := h'\<rparr>)
                | Inr df \<Rightarrow>
                    (Inr (),
                     w1\<lparr>heap := h',
                        files := (files w1)(nome \<mapsto> sheet_of df False),
                        trace := trace w1 @ [ToExcel nome, Print (saved_notice nome)]\<rparr>)))
      | Inr False \<Rightarrow>
          (case py_get (heap w r) ''message'' PNone of
             Inl e \<Rightarrow> (Inl e, w)
           | Inr m \<Rightarrow> (Inr (), w\<lparr>trace := trace w @ [Print (skip_notice (py_str R m))]\<rparr>)))"

section \<open>The fetcher: \<^verbatim>\<open>obter_dados_empresa_por_cnpj\<close>\<close>

text \<open>
  The other end of the connection: what each call on it does in this run. A call either
  raises or succeeds; \<^verbatim>\<open>getresponse\<close> yields the status code and \<^verbatim>\<open>read\<close> the body,
  as bytes.
\<close>

record server =
  request_outcome :: "exn option"
  getresponse_outcome :: "exn + int"
  read_outcome :: "exn + string"

text \<open>\<^verbatim>\<open>bytes.decode("utf-8")\<close>: the well-formed byte sequences of UTF-8.\<close>

definition cont :: "nat \<Rightarrow> bool" where
  "cont b = (0x80 \<le> b \<and> b \<le> 0xBF)"

definition second_of_3 :: "nat \<Rightarrow> nat \<Rightarrow> bool" where
  "second_of_3 b c =
     (if b = 0xE0 then 0xA0 \<le> c \<and> c \<le> 0xBF
      else if b = 0xED then 0x80 \<le> c \<and> c \<le> 0x9F
      else cont c)"

definition second_of_4 :: "nat \<Rightarrow> nat \<Rightarrow> bool" where
  "second_of_4 b c =
     (if b = 0xF0 then 0x90 \<le> c \<and> c \<le> 0xBF
      else if b = 0xF4 then 0x80 \<le> c \<and> c \<le> 0x8F
      else cont c)"

fun utf8_ok :: "nat list \<Rightarrow> bool" where
  "utf8_ok [] = True"
| "utf8_ok (b # bs) =
     (if b < 0x80 then utf8_ok bs
      else if 0xC2 \<le> b \<and> b \<le> 0xDF then
        (case bs of c1 # rest \<Rightarrow> cont c1 \<and> utf8_ok rest | _ \<Rightarrow> False)
      else if 0xE0 \<le> b \<and> b \<le> 0xEF then
        (case bs of
           c1 # c2 # rest \<Rightarrow> second_of_3 b c1 \<and> cont c2 \<and> utf8_ok rest
         | _ \<Rightarrow> False)
      else if 0xF0 \<le> b \<and> b \<le> 0xF4 then
        (case bs of
           c1 # c2 # c3 # rest \<Rightarrow> second_of_4 b c1 \<and> cont c2 \<and> cont c3 \<and> utf8_ok rest
         | _ \<Rightarrow> False)
      else False)"

definition decode_utf8 :: "string \<Rightarrow> exn + string" where
  "decode_utf8 bs = (if utf8_ok (map of_char bs) then Inr bs else Inl UnicodeDecodeError)"

definition api_host :: string where
  "api_host = ''www.receitaws.com.br''"

definition error_result :: "string \<Rightarrow> pyval" where
  "error_result msg = PDict [(''status'', PStr ''ERROR''), (''message'', PStr msg)]"

definition http_error_message :: "int \<Rightarrow> string" where
  "http_error_message st = ''Resposta HTTP com status '' @ str_int st"

definition json_error_message :: string where
  "json_error_message =
     ''Erro na decodifica'' @ [CHR 0xC3, CHR 0xA7, CHR 0xC3, CHR 0xA3] @ ''o do JSON.''"

definition json_error_notice :: "string \<Rightarrow> string" where
  "json_error_notice diag =
     ''Erro na decodifica'' @ [CHR 0xC3, CHR 0xA7, CHR 0xC3, CHR 0xA3] @ ''o do JSON: '' @ diag"

text \<open>
  \<^verbatim>\<open>json.loads\<close> is a library function: it is the parameter \<open>loads\<close>. On a text it
  yields the parsed value, or raises \<^verbatim>\<open>json.JSONDecodeError\<close> with a diagnostic, or raises
  another exception (\<^verbatim>\<open>RecursionError\<close> on a deeply nested text, \<^verbatim>\<open>ValueError\<close> on an
  integer with more digits than Python converts), which the handler of the fetcher does not
  catch.
\<close>

datatype loads_outcome =
    Parsed pyval
  | DecodeFailed string
  | LoadsRaised exn

text \<open>
  The result of the fetcher is the exception raised or the value returned, with the events
  of the call added to the trace.
\<close>

definition obter_dados_empresa_por_cnpj ::
  "(pyval \<Rightarrow> string) \<Rightarrow> (string \<Rightarrow> loads_outcome) \<Rightarrow> server \<Rightarrow> string \<Rightarrow> event list \<Rightarrow>
   (exn + pyval) \<times> event list" where
  "obter_dados_empresa_por_cnpj R loads srv cnpj t =
     (let t1 = t @ [NewConnection api_host, Request ''GET'' (''/v1/cnpj/'' @ cnpj)] in
      case request_outcome srv of
        Some e \<Rightarrow> (Inl e, t1)
      | None \<Rightarrow>
          (let t2 = t1 @ [GetResponse] in
           case getresponse_outcome srv of
             Inl e \<Rightarrow> (Inl e, t2)
           | Inr st \<Rightarrow>
               (let t3 = t2 @ [Print (''Status da Resposta HTTP: '' @ str_int st)] in
                if st \<noteq> 200 then (Inr (error_result (http_error_message st)), t3)
                else
                  (let t4 = t3 @ [ReadBody] in
                   case read_outcome srv of
                     Inl e \<Rightarrow> (Inl e, t4)
                   | Inr dados \<Rightarrow>
                       (let t5 = t4 @ [CloseConnection] in
                        case decode_utf8 dados of
                          Inl e \<Rightarrow> (Inl e, t5)
                        | Inr texto \<Rightarrow>
                            (let t6 = t5 @ [JsonLoads texto] in
                             case loads texto of
                               Parsed empresa \<Rightarrow>
                                 (Inr empresa,
                                  t6 @ [Print (''Empresa decodificada: '' @
                                               py_str R empresa)])
                             | DecodeFailed diag \<Rightarrow>
                                 (Inr (error_result json_error_message),
                                  t6 @ [Print (json_error_notice diag)])
                             | LoadsRaised e \<Rightarrow> (Inl e, t6)))))))"

section \<open>The script\<close>

definition cnpj_exemplo :: string where
  "cnpj_exemplo = ''06947283000160''"

text \<open>
  The two calls at the end of the file. The object that the fetcher returns is placed at
  the address \<open>r\<close>, which the exporter receives.
\<close>

definition script ::
  "(pyval \<Rightarrow> string) \<Rightarrow> (string \<Rightarrow> loads_outcome) \<Rightarrow> server \<Rightarrow> ref \<Rightarrow> world \<Rightarrow>
   (exn + unit) \<times> world" where
  "script R loads srv r w =
     (case obter_dados_empresa_por_cnpj R loads srv cnpj_exemplo (trace w) of
        (Inl e, t) \<Rightarrow> (Inl e, w\<lparr>trace := t\<rparr>)
      | (Inr v, t) \<Rightarrow>
          salvar_dados_empresa_excel R r default_nome_arquivo
            (w\<lparr>heap := (heap w)(r := v), trace := t\<rparr>))"

section \<open>The spec's wording of an entry of \<^verbatim>\<open>qsa\<close>\<close>

text \<open>
  The spec gives the text of one partner as \<^verbatim>\<open>"<nome> (<qual-or-empty>)"\<close>. This is that
  wording, for the value of \<^verbatim>\<open>nome\<close> and the value of \<^verbatim>\<open>qual\<close> if the entry has one; the
  theorems compare it with what \<open>qsa_entry\<close> computes.
\<close>

definition spec_qsa_text :: "(pyval \<Rightarrow> string) \<Rightarrow> pyval \<Rightarrow> pyval option \<Rightarrow> string" where
  "spec_qsa_text R nome qual =
     py_str R nome @ '' ('' @ py_str R (case qual of None \<Rightarrow> PStr [] | Some q \<Rightarrow> q) @ '')''"

text \<open>
  The spec speaks of an entry that lacks a field. An entry has the field \<open>k\<close> when it is a
  record with the key \<open>k\<close>; a record lacks an entry field when the list under one of its
  three list keys has an entry without \<^verbatim>\<open>text\<close> (respectively \<^verbatim>\<open>nome\<close>).
\<close>

fun has_field :: "string \<Rightarrow> pyval \<Rightarrow> bool" where
  "has_field k (PDict kv) = (map_of kv k \<noteq> None)"
| "has_field k v = False"

definition field_lacks :: "(string \<times> pyval) list \<Rightarrow> string \<Rightarrow> string \<Rightarrow> bool" where
  "field_lacks d k key =
     (case map_of d k of
        Some (PList es) \<Rightarrow> list_ex (\<lambda>x. \<not> has_field key x) es
      | _ \<Rightarrow> False)"

definition lacks_entry_field :: "(string \<times> pyval) list \<Rightarrow> bool" where
  "lacks_entry_field d =
     (field_lacks d ''atividade_principal'' ''text'' \<or>
      field_lacks d ''atividades_secundarias'' ''text'' \<or>
      field_lacks d ''qsa'' ''nome'')"

section \<open>Concrete parameters for the examples\<close>

text \<open>
  The examples need values for the parameters: a \<^verbatim>\<open>repr\<close>, a \<^verbatim>\<open>json.loads\<close> that knows
  the empty object, a store with one object at address 0 and a world around it with no
  file and an empty trace.
\<close>

definition example_repr :: "pyval \<Rightarrow> string" where
  "example_repr v = ''<repr>''"

definition example_loads :: "string \<Rightarrow> loads_outcome" where
  "example_loads texto =
     (if texto = ''{}'' then Parsed (PDict [])
      else DecodeFailed ''Expecting value: line 1 column 1 (char 0)'')"

definition example_heap :: "pyval \<Rightarrow> heap" where
  "example_heap v = (\<lambda>r. if r = 0 then v else PNone)"

definition example_world :: "pyval \<Rightarrow> world" where
  "example_world v = \<lparr>heap = example_heap v, files = Map.empty, trace = []\<rparr>"

section \<open>Properties of the normalizer\<close>

lemma known_keys_fields: "map fst (known_fields R) = known_keys"
  by (simp add: known_fields_def known_keys_def)

subsection \<open>Assignments to a dict\<close>

lemma update_keys:
  "(k, x) \<in> set d \<Longrightarrow> map fst (AList.update k v d) = map fst d"
  by (induction d) auto

lemma update_others:
  "k \<in> K \<Longrightarrow>
   filter (\<lambda>kv. fst kv \<notin> K) (AList.update k v d) = filter (\<lambda>kv. fst kv \<notin> K) d"
  by (induction d) auto

subsection \<open>One block\<close>

lemma rewrite_field_absent:
  "h r = PDict d \<Longrightarrow> k \<notin> set (map fst d) \<Longrightarrow> rewrite_field f k r h = (None, h)"
  by (simp add: rewrite_field_def)

lemma rewrite_field_cases:
  assumes "h r = PDict d"
  shows "snd (rewrite_field f k r h) = h \<or>
         (\<exists>v. k \<in> set (map fst d) \<and>
              snd (rewrite_field f k r h) = h(r := PDict (AList.update k v d)))"
  using assms by (auto simp: rewrite_field_def split: sum.splits bool.splits option.splits)

lemma rewrite_field_inv:
  assumes "h r = PDict d" and "k \<in> K"
  shows "\<exists>d'. snd (rewrite_field f k r h) r = PDict d' \<and> map fst d' = map fst d \<and>
           filter (\<lambda>kv. fst kv \<notin> K) d' = filter (\<lambda>kv. fst kv \<notin> K) d"
    and "r' \<noteq> r \<Longrightarrow> snd (rewrite_field f k r h) r' = h r'"
  using rewrite_field_cases [where h=h and r=r and d=d and f=f and k=k] assms
  by (auto simp: update_keys update_others)

subsection \<open>A run of blocks\<close>

text \<open>
  Whatever the outcome, the object at \<open>r\<close> is still a dict with the same keys in the same
  order, its fields outside the keys of the blocks are as they were, and no other object
  has changed.
\<close>

lemma rewrite_fields_inv:
  assumes "h r = PDict d" and "set (map fst fs) \<subseteq> K"
  shows "(\<exists>d'. snd (rewrite_fields fs r h) r = PDict d' \<and> map fst d' = map fst d \<and>
           filter (\<lambda>kv. fst kv \<notin> K) d' = filter (\<lambda>kv. fst kv \<notin> K) d) \<and>
         (\<forall>r'. r' \<noteq> r \<longrightarrow> snd (rewrite_fields fs r h) r' = h r')"
  using assms
proof (induction fs arbitrary: h d)
  case Nil
  then show ?case by simp
next
  case (Cons kf fs)
  obtain k f where kf: "kf = (k, f)" by (cases kf)
  obtain res h1 where step: "rewrite_field f k r h = (res, h1)"
    by (cases "rewrite_field f k r h")
  from Cons.prems kf have kK: "k \<in> K" by simp
  from rewrite_field_inv(1) [where h=h and r=r and d=d and k=k and K=K and f=f]
    Cons.prems(1) kK step
  obtain d1 where d1: "h1 r = PDict d1" "map fst d1 = map fst d"
    "filter (\<lambda>kv. fst kv \<notin> K) d1 = filter (\<lambda>kv. fst kv \<notin> K) d" by auto
  have other: "h1 r' = h r'" if "r' \<noteq> r" for r'
    using rewrite_field_inv(2) [where h=h and r=r and d=d and k=k and K=K and f=f and r'=r']
      Cons.prems(1) kK step that by auto
  show ?case
  proof (cases res)
    case None
    from Cons.prems have "set (map fst fs) \<subseteq> K" by simp
    from Cons.IH [where h=h1 and d=d1] d1 this other None step kf
    show ?thesis by auto
  next
    case (Some e)
    with step kf d1 other show ?thesis by auto
  qed
qed

lemma rewrite_fields_absent:
  assumes "h r = PDict d" and "set (map fst fs) \<inter> set (map fst d) = {}"
  shows "rewrite_fields fs r h = (None, h)"
  using assms
  by (induction fs) (auto simp: rewrite_field_absent)

subsection \<open>Fields that are not rewritten\<close>

text \<open>
  C7. A record with none of the five known keys comes back from the normalizer unchanged,
  and is returned. For every record, and whether the normalizer returns or raises, the
  fields other than the five are afterwards what they were: the same keys with the same
  values, in the same order.
\<close>

theorem tratar_frame:
  assumes "h r = PDict d"
  shows "(set (map fst d) \<inter> set known_keys = {} \<longrightarrow>
            tratar_dados_aninhados R r h = (Inr r, h)) \<and>
         (\<exists>d'. snd (tratar_dados_aninhados R r h) r = PDict d' \<and>
            filter (\<lambda>kv. fst kv \<notin> set known_keys) d' =
            filter (\<lambda>kv. fst kv \<notin> set known_keys) d)"
proof
  show "set (map fst d) \<inter> set known_keys = {} \<longrightarrow>
          tratar_dados_aninhados R r h = (Inr r, h)"
  proof
    assume "set (map fst d) \<inter> set known_keys = {}"
    then have "set (map fst (known_fields R)) \<inter> set (map fst d) = {}"
      by (auto simp: known_keys_fields)
    from rewrite_fields_absent [where h=h and r=r and d=d and fs="known_fields R"] assms this
    show "tratar_dados_aninhados R r h = (Inr r, h)"
      by (simp add: tratar_dados_aninhados_def)
  qed
next
  have "set (map fst (known_fields R)) \<subseteq> set known_keys"
    by (simp add: known_keys_fields)
  from rewrite_fields_inv
         [where h=h and r=r and d=d and fs="known_fields R" and K="set known_keys"] assms this
  show "\<exists>d'. snd (tratar_dados_aninhados R r h) r = PDict d' \<and>
          filter (\<lambda>kv. fst kv \<notin> set known_keys) d' =
          filter (\<lambda>kv. fst kv \<notin> set known_keys) d"
    by (auto simp: tratar_dados_aninhados_def split: prod.splits option.splits)
qed

theorem tratar_frame_witness:
  "tratar_dados_aninhados example_repr 0
     (example_heap (PDict [(''cnpj'', PStr ''06947283000160''), (''capital_social'', PInt 1000)]))
   = (Inr 0,
      example_heap (PDict [(''cnpj'', PStr ''06947283000160''), (''capital_social'', PInt 1000)]))"
  using tratar_frame
    [where h="example_heap (PDict [(''cnpj'', PStr ''06947283000160''),
                                   (''capital_social'', PInt 1000)])"
       and r=0 and R=example_repr
       and d="[(''cnpj'', PStr ''06947283000160''), (''capital_social'', PInt 1000)]"]
  by (simp add: example_heap_def known_keys_def)

subsection \<open>Keys, their order, and the identity of the object\<close>

text \<open>
  C10. For every record, and whether the normalizer returns or raises, the object that was
  passed holds afterwards a dict with the same keys in the same order: no key is added or
  removed. No other object of the store is written, and the reference that the normalizer
  returns is the one it was given.
\<close>

theorem tratar_in_place:
  assumes "h r = PDict d"
  shows "(\<exists>d'. snd (tratar_dados_aninhados R r h) r = PDict d' \<and> map fst d' = map fst d) \<and>
         (\<forall>r'. r' \<noteq> r \<longrightarrow> snd (tratar_dados_aninhados R r h) r' = h r') \<and>
         (\<forall>x. fst (tratar_dados_aninhados R r h) = Inr x \<longrightarrow> x = r)"
proof -
  have "set (map fst (known_fields R)) \<subseteq> set known_keys"
    by (simp add: known_keys_fields)
  from rewrite_fields_inv
         [where h=h and r=r and d=d and fs="known_fields R" and K="set known_keys"] assms this
  show ?thesis
    by (auto simp: tratar_dados_aninhados_def split: prod.splits option.splits)
qed

theorem tratar_in_place_witness:
  "(\<exists>d'. snd (tratar_dados_aninhados example_repr 0
              (example_heap (PDict [(''nome'', PStr ''ACME''), (''billing'', PNone)]))) 0
         = PDict d' \<and> map fst d' = [''nome'', ''billing'']) \<and>
   snd (tratar_dados_aninhados example_repr 0
          (example_heap (PDict [(''nome'', PStr ''ACME''), (''billing'', PNone)]))) 1 = PNone \<and>
   fst (tratar_dados_aninhados example_repr 0
          (example_heap (PDict [(''nome'', PStr ''ACME''), (''billing'', PNone)]))) = Inr 0"
  using tratar_in_place
    [where h="example_heap (PDict [(''nome'', PStr ''ACME''), (''billing'', PNone)])"
       and r=0 and R=example_repr
       and d="[(''nome'', PStr ''ACME''), (''billing'', PNone)]"]
  by (simp add: example_heap_def tratar_dados_aninhados_def known_fields_def
        rewrite_field_def to_str_def)

subsection \<open>The field that a block rewrites\<close>

lemma map_of_filter_keep:
  "k \<notin> K \<Longrightarrow> map_of (filter (\<lambda>kv. fst kv \<notin> K) d) k = map_of d k"
  by (induction d) auto

lemma rewrite_fields_keeps:
  assumes "h r = PDict d" and "k \<notin> set (map fst fs)"
  shows "\<exists>d'. snd (rewrite_fields fs r h) r = PDict d' \<and> map_of d' k = map_of d k"
proof -
  from rewrite_fields_inv [where h=h and r=r and d=d and fs=fs and K="set (map fst fs)"]
    assms(1)
  obtain d' where d': "snd (rewrite_fields fs r h) r = PDict d'"
    "filter (\<lambda>kv. fst kv \<notin> set (map fst fs)) d' =
     filter (\<lambda>kv. fst kv \<notin> set (map fst fs)) d"
    by auto
  from map_of_filter_keep [OF assms(2), of d'] map_of_filter_keep [OF assms(2), of d] d'(2)
  have "map_of d' k = map_of d k" by simp
  with d'(1) show ?thesis by blast
qed

lemma rewrite_field_None:
  assumes "rewrite_field f k r h = (None, h')" and "h r = PDict d"
  shows "(map_of d k = None \<and> h' = h) \<or>
         (\<exists>v v'. map_of d k = Some v \<and> f v = Inr v' \<and>
                  h' = h(r := PDict (AList.update k v' d)))"
  using assms
  by (auto simp: rewrite_field_def map_of_eq_None_iff image_iff
      split: sum.splits bool.splits option.splits if_splits)

text \<open>
  When a run of blocks with distinct keys ends without an exception, the block of a key
  that the record has did succeed, and the record holds its result at the end.
\<close>

lemma rewrite_fields_result:
  assumes "rewrite_fields fs r h = (None, h')" and "h r = PDict d"
    and "distinct (map fst fs)" and "(k, f) \<in> set fs" and "map_of d k = Some v"
  shows "\<exists>v' d'. f v = Inr v' \<and> h' r = PDict d' \<and> map_of d' k = Some v'"
  using assms
proof (induction fs arbitrary: h d)
  case Nil
  then show ?case by simp
next
  case (Cons kf fs)
  obtain k0 f0 where kf: "kf = (k0, f0)" by (cases kf)
  from Cons.prems(1) kf obtain h1 where
    step: "rewrite_field f0 k0 r h = (None, h1)" and rest: "rewrite_fields fs r h1 = (None, h')"
    by (auto split: prod.splits option.splits)
  from rewrite_field_None [OF step Cons.prems(2)]
  consider (skip) "map_of d k0 = None" "h1 = h"
    | (upd) v0 v0' where "map_of d k0 = Some v0" "f0 v0 = Inr v0'"
        "h1 = h(r := PDict (AList.update k0 v0' d))"
    by auto
  then show ?case
  proof cases
    case skip
    with Cons.prems(5) have "k \<noteq> k0" by auto
    with Cons.prems(3,4) kf have "(k, f) \<in> set fs" "distinct (map fst fs)" by auto
    from Cons.IH [where h=h and d=d] rest skip(2) Cons.prems(2) this Cons.prems(5)
    show ?thesis by simp
  next
    case upd
    show ?thesis
    proof (cases "k = k0")
      case True
      with Cons.prems(3,4) kf have ff: "f = f0" and notin: "k \<notin> set (map fst fs)"
        by (auto simp: image_iff)
      from True upd Cons.prems(5) have v: "v0 = v" by simp
      have h1r: "h1 r = PDict (AList.update k0 v0' d)" using upd(3) by simp
      from rewrite_fields_keeps [where h=h1 and r=r and fs=fs and k=k, OF h1r notin] rest True
      obtain d' where "h' r = PDict d'" "map_of d' k = Some v0'"
        by (auto simp: AList.update_conv')
      with upd(2) ff v show ?thesis by blast
    next
      case False
      with Cons.prems(3,4) kf have mem: "(k, f) \<in> set fs" "distinct (map fst fs)" by auto
      have h1r: "h1 r = PDict (AList.update k0 v0' d)" using upd(3) by simp
      have "map_of (AList.update k0 v0' d) k = Some v"
        using False Cons.prems(5) by (simp add: AList.update_conv')
      from Cons.IH [where h=h1 and d="AList.update k0 v0' d"] rest h1r mem this
      show ?thesis by simp
    qed
  qed
qed

lemma known_fields_distinct: "distinct (map fst (known_fields R))"
  by (simp add: known_fields_def)

lemma tratar_Inr:
  assumes "tratar_dados_aninhados R r h = (Inr r', h')"
  shows "rewrite_fields (known_fields R) r h = (None, h')"
  using assms by (auto simp: tratar_dados_aninhados_def split: prod.splits option.splits)

subsection \<open>Joining the texts\<close>

lemma as_strs_map: "as_strs (map PStr ss) = Inr ss"
  by (induction ss) auto

lemma as_strs_map_comp: "as_strs (map (PStr \<circ> f) xs) = Inr (map f xs)"
  by (induction xs) auto

lemma comprehension_texts:
  "map (\<lambda>e. map_of e ''text'') es = map (\<lambda>s. Some (PStr s)) ss \<Longrightarrow>
   comprehension (\<lambda>ativ. getitem ativ ''text'') (map PDict es) = Inr (map PStr ss)"
  by (induction es arbitrary: ss) auto

lemma join_texts_ok:
  "map (\<lambda>e. map_of e ''text'') es = map (\<lambda>s. Some (PStr s)) ss \<Longrightarrow>
   join_texts (PList (map PDict es)) = Inr (PStr (intercalate ''; '' ss))"
  by (simp add: join_texts_def comprehension_texts str_join_def as_strs_map)

lemma comprehension_qsa:
  "map (\<lambda>e. map_of e ''nome'') es = map Some nomes \<Longrightarrow>
   comprehension (qsa_entry R) (map PDict es) =
     Inr (map PStr (map2 (\<lambda>n e. spec_qsa_text R n (map_of e ''qual'')) nomes es))"
  by (induction es arbitrary: nomes)
     (auto simp: qsa_entry_def spec_qsa_text_def split: option.splits)

lemma join_qsa_ok:
  "map (\<lambda>e. map_of e ''nome'') es = map Some nomes \<Longrightarrow>
   join_qsa R (PList (map PDict es)) =
     Inr (PStr (intercalate ''; ''
            (map2 (\<lambda>n e. spec_qsa_text R n (map_of e ''qual'')) nomes es)))"
  by (simp add: join_qsa_def comprehension_qsa str_join_def as_strs_map_comp)

section \<open>Exceptions of the normalizer\<close>

lemma getitem_Inr: "getitem x k = Inr y \<Longrightarrow> has_field k x"
  by (cases x) (auto split: option.splits)

lemma comprehension_Inr:
  "comprehension f xs = Inr ys \<Longrightarrow> \<forall>x\<in>set xs. \<exists>y. f x = Inr y"
  by (induction xs arbitrary: ys) (auto split: sum.splits)

lemma comprehension_Inl:
  "comprehension f xs = Inl e \<Longrightarrow> \<exists>x\<in>set xs. f x = Inl e"
  by (induction xs) (auto split: sum.splits)

lemma join_texts_needs:
  "join_texts (PList es) = Inr v \<Longrightarrow> \<forall>x\<in>set es. has_field ''text'' x"
  by (auto simp: join_texts_def split: sum.splits dest!: comprehension_Inr dest: getitem_Inr)

lemma qsa_entry_Inr: "qsa_entry R q = Inr y \<Longrightarrow> has_field ''nome'' q"
  by (auto simp: qsa_entry_def split: sum.splits dest: getitem_Inr)

lemma join_qsa_needs:
  "join_qsa R (PList es) = Inr v \<Longrightarrow> \<forall>x\<in>set es. has_field ''nome'' x"
  by (auto simp: join_qsa_def split: sum.splits dest!: comprehension_Inr dest: qsa_entry_Inr)

lemma getitem_Inl: "getitem x k = Inl e \<Longrightarrow> e = KeyError k \<or> e = TypeError"
  by (cases x) (auto split: option.splits)

lemma as_strs_Inl: "as_strs xs = Inl e \<Longrightarrow> e = TypeError"
  by (induction xs rule: as_strs.induct) (auto split: sum.splits)

lemma py_iter_Inl: "py_iter v = Inl e \<Longrightarrow> e = TypeError"
  by (cases v) auto

lemma join_texts_Inl:
  "join_texts v = Inl e \<Longrightarrow> e = KeyError ''text'' \<or> e = TypeError"
  by (auto simp: join_texts_def str_join_def split: sum.splits
      dest: py_iter_Inl as_strs_Inl dest!: comprehension_Inl getitem_Inl)

lemma qsa_entry_Inl:
  "qsa_entry R q = Inl e \<Longrightarrow> e = KeyError ''nome'' \<or> e = TypeError"
  by (cases q) (auto simp: qsa_entry_def split: sum.splits option.splits)

lemma join_qsa_Inl:
  "join_qsa R v = Inl e \<Longrightarrow> e = KeyError ''nome'' \<or> e = TypeError"
  by (auto simp: join_qsa_def str_join_def split: sum.splits
      dest: py_iter_Inl as_strs_Inl dest!: comprehension_Inl qsa_entry_Inl)

lemma rewrite_field_Some:
  assumes "rewrite_field f k r h = (Some e, h')" and "h r = PDict d"
  shows "\<exists>v. f v = Inl e"
  using assms
  by (auto simp: rewrite_field_def map_of_eq_None_iff image_iff
      split: sum.splits bool.splits option.splits if_splits)

lemma rewrite_fields_Some:
  assumes "rewrite_fields fs r h = (Some e, h')" and "h r = PDict d"
  shows "\<exists>kf\<in>set fs. \<exists>v. snd kf v = Inl e"
  using assms
proof (induction fs arbitrary: h d)
  case Nil
  then show ?case by simp
next
  case (Cons kf fs)
  obtain k f where kf: "kf = (k, f)" by (cases kf)
  obtain res h1 where step: "rewrite_field f k r h = (res, h1)"
    by (cases "rewrite_field f k r h")
  show ?case
  proof (cases res)
    case None
    from rewrite_field_inv(1) [where h=h and r=r and d=d and k=k and K="{k}" and f=f]
      Cons.prems(2) step
    obtain d1 where "h1 r = PDict d1" by auto
    from Cons.IH [where h=h1 and d=d1] this Cons.prems(1) kf step None
    show ?thesis by auto
  next
    case (Some e')
    with Cons.prems(1) kf step have "e' = e" by simp
    with rewrite_field_Some [where f=f and k=k and r=r and h=h and e=e and h'=h1 and d=d]
      step Some Cons.prems(2) kf
    show ?thesis by auto
  qed
qed

lemma tratar_Inl_kind:
  assumes "tratar_dados_aninhados R r h = (Inl e, h')" and "h r = PDict d"
  shows "e = KeyError ''text'' \<or> e = KeyError ''nome'' \<or> e = TypeError"
proof -
  from assms(1) have "rewrite_fields (known_fields R) r h = (Some e, h')"
    by (auto simp: tratar_dados_aninhados_def split: prod.splits option.splits)
  from rewrite_fields_Some [OF this assms(2)]
  show ?thesis
    by (auto simp: known_fields_def to_str_def dest: join_texts_Inl join_qsa_Inl)
qed

lemma tratar_missing_raises:
  assumes "h r = PDict d" and "lacks_entry_field d"
  shows "\<exists>e h'. tratar_dados_aninhados R r h = (Inl e, h')"
proof -
  obtain res h' where run: "tratar_dados_aninhados R r h = (res, h')"
    by (cases "tratar_dados_aninhados R r h")
  show ?thesis
  proof (cases res)
    case (Inl e)
    with run show ?thesis by blast
  next
    case (Inr r')
    with run have ok: "rewrite_fields (known_fields R) r h = (None, h')"
      using tratar_Inr by simp
    have texts: False if "k = ''atividade_principal'' \<or> k = ''atividades_secundarias''"
      and "field_lacks d k ''text''" for k
    proof -
      from that(2) obtain es where es: "map_of d k = Some (PList es)"
        "\<exists>x\<in>set es. \<not> has_field ''text'' x"
        by (auto simp: field_lacks_def list_ex_iff split: option.splits pyval.splits)
      from that(1) have mem: "(k, join_texts) \<in> set (known_fields R)"
        by (auto simp: known_fields_def)
      from rewrite_fields_result [OF ok assms(1) known_fields_distinct mem es(1)]
      obtain v' where "join_texts (PList es) = Inr v'" by blast
      from join_texts_needs [OF this] es(2) show False by blast
    qed
    have qsa: False if "field_lacks d ''qsa'' ''nome''"
    proof -
      from that obtain es where es: "map_of d ''qsa'' = Some (PList es)"
        "\<exists>x\<in>set es. \<not> has_field ''nome'' x"
        by (auto simp: field_lacks_def list_ex_iff split: option.splits pyval.splits)
      have mem: "(''qsa'', join_qsa R) \<in> set (known_fields R)"
        by (simp add: known_fields_def)
      from rewrite_fields_result [OF ok assms(1) known_fields_distinct mem es(1)]
      obtain v' where "join_qsa R (PList es) = Inr v'" by blast
      from join_qsa_needs [OF this] es(2) show False by blast
    qed
    from assms(2) texts qsa show ?thesis
      unfolding lacks_entry_field_def by blast
  qed
qed

section \<open>The three list fields\<close>

subsection \<open>One block, when it succeeds and when it raises\<close>

lemma step_ok:
  assumes "h r = PDict d" and "\<forall>v. map_of d k = Some v \<longrightarrow> (\<exists>v'. f v = Inr v')"
  shows "\<exists>d1. rewrite_field f k r h = (None, h(r := PDict d1)) \<and>
           (\<forall>k'. k' \<noteq> k \<longrightarrow> map_of d1 k' = map_of d k') \<and>
           (\<forall>v v'. map_of d k = Some v \<longrightarrow> f v = Inr v' \<longrightarrow> map_of d1 k = Some v')"
proof (cases "map_of d k")
  case None
  then have "k \<notin> set (map fst d)" by (simp add: map_of_eq_None_iff)
  from rewrite_field_absent [where h=h and r=r and d=d and k=k and f=f] assms(1) this
  have "rewrite_field f k r h = (None, h(r := PDict d))"
    using assms(1) by (simp add: fun_upd_idem)
  with None show ?thesis by auto
next
  case (Some v)
  with assms(2) obtain v' where v': "f v = Inr v'" by blast
  from Some have "k \<in> set (map fst d)" by (force dest: map_of_SomeD)
  with assms(1) Some v'
  have "rewrite_field f k r h = (None, h(r := PDict (AList.update k v' d)))"
    by (simp add: rewrite_field_def)
  with Some v' show ?thesis by (auto simp: AList.update_conv')
qed

lemma step_fail:
  assumes "h r = PDict d" and "map_of d k = Some v" and "f v = Inl e"
  shows "rewrite_field f k r h = (Some e, h)"
proof -
  from assms(2) have "k \<in> set (map fst d)" by (force dest: map_of_SomeD)
  with assms show ?thesis by (simp add: rewrite_field_def)
qed

lemma texts_block_step:
  assumes "h r = PDict d" and "texts_block_ok d k"
  shows "\<exists>d1. rewrite_field join_texts k r h = (None, h(r := PDict d1)) \<and>
           (\<forall>k'. k' \<noteq> k \<longrightarrow> map_of d1 k' = map_of d k') \<and>
           (\<forall>v v'. map_of d k = Some v \<longrightarrow> join_texts v = Inr v' \<longrightarrow> map_of d1 k = Some v')"
proof -
  have "\<exists>v'. join_texts v = Inr v'" if "map_of d k = Some v" for v
    using assms(2) that by (cases "join_texts v") (simp_all add: texts_block_ok_def)
  then have "\<forall>v. map_of d k = Some v \<longrightarrow> (\<exists>v'. join_texts v = Inr v')"
    by blast
  from step_ok [where h=h and r=r and d=d and k=k and f=join_texts] assms(1) this
  show ?thesis by simp
qed

lemma texts_block_fail:
  assumes "h r = PDict d" and "\<not> texts_block_ok d k"
  shows "\<exists>e. rewrite_field join_texts k r h = (Some e, h)"
proof -
  from assms(2) obtain v e where "map_of d k = Some v" "join_texts v = Inl e"
    by (auto simp: texts_block_ok_def split: option.splits sum.splits)
  from step_fail [where h=h and r=r and d=d and k=k and f=join_texts and v=v and e=e] assms(1) this
  show ?thesis by blast
qed

lemma snd_tratar:
  "snd (tratar_dados_aninhados R r h) = snd (rewrite_fields (known_fields R) r h)"
  by (auto simp: tratar_dados_aninhados_def split: prod.splits option.splits)

lemma to_str_step:
  assumes "h r = PDict d"
  shows "\<exists>d1. rewrite_field (to_str R) k r h = (None, h(r := PDict d1)) \<and>
           (\<forall>k'. k' \<noteq> k \<longrightarrow> map_of d1 k' = map_of d k')"
  using step_ok [where h=h and r=r and d=d and k=k and f="to_str R"] assms
  by (auto simp: to_str_def)

lemma as_strs_Inr: "as_strs xs = Inr ss \<Longrightarrow> xs = map PStr ss"
  by (induction xs arbitrary: ss rule: as_strs.induct) (auto split: sum.splits)

lemma comprehension_text_values:
  "map (\<lambda>e. map_of e ''text'') es = map Some ts \<Longrightarrow>
   comprehension (\<lambda>ativ. getitem ativ ''text'') (map PDict es) = Inr ts"
  by (induction es arbitrary: ts) auto

lemma join_texts_not_strings:
  assumes "map (\<lambda>e. map_of e ''text'') es = map Some ts" and "\<forall>ss. ts \<noteq> map PStr ss"
  shows "join_texts (PList (map PDict es)) = Inl TypeError"
proof (cases "as_strs ts")
  case (Inl e)
  with as_strs_Inl [OF Inl] assms(1) show ?thesis
    by (simp add: join_texts_def comprehension_text_values str_join_def)
next
  case (Inr ss)
  from as_strs_Inr [OF this] assms(2) show ?thesis by blast
qed

subsection \<open>\<^verbatim>\<open>atividade_principal\<close> and \<^verbatim>\<open>atividades_secundarias\<close>\<close>

text \<open>
  C4, as stated, fails, in two ways. A \<^verbatim>\<open>text\<close> field that holds something other than a
  string, here the number 1, makes \<^verbatim>\<open>join\<close> raise \<^verbatim>\<open>TypeError\<close>, and the field is not
  replaced. And the block of \<^verbatim>\<open>atividades_secundarias\<close> runs after that of
  \<^verbatim>\<open>atividade_principal\<close>: in the second record the first block raises \<^verbatim>\<open>KeyError\<close>, and
  \<^verbatim>\<open>atividades_secundarias\<close>, which is as the claim wants it, is not replaced.
\<close>

theorem tratar_atividades_counterexample:
  "tratar_dados_aninhados example_repr 0
     (example_heap (PDict [(''atividade_principal'', PList [PDict [(''text'', PInt 1)]])]))
   = (Inl TypeError,
      example_heap (PDict [(''atividade_principal'', PList [PDict [(''text'', PInt 1)]])])) \<and>
   tratar_dados_aninhados example_repr 0
     (example_heap (PDict [(''atividade_principal'', PList [PDict [(''code'', PStr ''62.01-5-01'')]]),
                           (''atividades_secundarias'', PList [PDict [(''text'', PStr ''A'')]])]))
   = (Inl (KeyError ''text''),
      example_heap (PDict [(''atividade_principal'', PList [PDict [(''code'', PStr ''62.01-5-01'')]]),
                           (''atividades_secundarias'', PList [PDict [(''text'', PStr ''A'')]])]))"
  by (simp add: tratar_dados_aninhados_def known_fields_def rewrite_field_def
        join_texts_def str_join_def example_heap_def)

text \<open>
  C4, amended. Let a record hold under the key \<open>k\<close> a list of records whose \<^verbatim>\<open>text\<close> fields
  hold the values \<open>ts\<close>, and let \<open>k\<close> be \<^verbatim>\<open>atividade_principal\<close>, or
  \<^verbatim>\<open>atividades_secundarias\<close> in a record on which the block of \<^verbatim>\<open>atividade_principal\<close> does
  not raise. If the values \<open>ts\<close> are strings, then after the call, whether the normalizer
  returns or a later block raises, the record holds under \<open>k\<close> the single string that joins
  them with \<^verbatim>\<open>"; "\<close>. If they are not all strings, the normalizer raises \<^verbatim>\<open>TypeError\<close> and
  the record still holds the list under \<open>k\<close>. When \<open>k\<close> is \<^verbatim>\<open>atividades_secundarias\<close> and the
  block of \<^verbatim>\<open>atividade_principal\<close> raises, the normalizer raises and the store is as it
  was.
\<close>

theorem tratar_atividades:
  assumes "h r = PDict d"
    and "map_of d k = Some (PList (map PDict es))"
    and "map (\<lambda>e. map_of e ''text'') es = map Some ts"
  shows "(k = ''atividade_principal'' \<or>
          k = ''atividades_secundarias'' \<and> texts_block_ok d ''atividade_principal'' \<longrightarrow>
            (\<forall>ss. ts = map PStr ss \<longrightarrow>
               (\<exists>d'. snd (tratar_dados_aninhados R r h) r = PDict d' \<and>
                  map_of d' k = Some (PStr (intercalate ''; '' ss)))) \<and>
            ((\<forall>ss. ts \<noteq> map PStr ss) \<longrightarrow>
               (\<exists>h' d'. tratar_dados_aninhados R r h = (Inl TypeError, h') \<and>
                  h' r = PDict d' \<and> map_of d' k = Some (PList (map PDict es))))) \<and>
         (k = ''atividades_secundarias'' \<and> \<not> texts_block_ok d ''atividade_principal'' \<longrightarrow>
            (\<exists>e. tratar_dados_aninhados R r h = (Inl e, h)))"
proof (intro conjI impI allI)
  fix ss
  assume k: "k = ''atividade_principal'' \<or>
             k = ''atividades_secundarias'' \<and> texts_block_ok d ''atividade_principal''"
    and ts: "ts = map PStr ss"
  from assms(3) ts have "map (\<lambda>e. map_of e ''text'') es = map (\<lambda>s. Some (PStr s)) ss"
    by simp
  from join_texts_ok [OF this]
  have joined: "join_texts (PList (map PDict es)) = Inr (PStr (intercalate ''; '' ss))" .
  from k show "\<exists>d'. snd (tratar_dados_aninhados R r h) r = PDict d' \<and>
                 map_of d' k = Some (PStr (intercalate ''; '' ss))"
  proof
    assume k1: "k = ''atividade_principal''"
    have ok: "\<forall>v. map_of d k = Some v \<longrightarrow> (\<exists>v'. join_texts v = Inr v')"
      using assms(2) joined by auto
    from step_ok [where h=h and r=r and d=d and k=k and f=join_texts] assms(1) ok
    obtain d1 where s1: "rewrite_field join_texts k r h = (None, h(r := PDict d1))"
      and new: "map_of d1 k = Some (PStr (intercalate ''; '' ss))"
      using assms(2) joined by auto
    let ?rest = "[(''atividades_secundarias'', join_texts), (''qsa'', join_qsa R),
                  (''billing'', to_str R), (''extra'', to_str R)]"
    have "k \<notin> set (map fst ?rest)" using k1 by simp
    from rewrite_fields_keeps
           [where h="h(r := PDict d1)" and r=r and d=d1 and fs="?rest" and k=k] this
    obtain d' where "snd (rewrite_fields ?rest r (h(r := PDict d1))) r = PDict d'"
      "map_of d' k = map_of d1 k" by auto
    with s1 new k1 show ?thesis
      by (auto simp: snd_tratar known_fields_def)
  next
    assume "k = ''atividades_secundarias'' \<and> texts_block_ok d ''atividade_principal''"
    then have k2: "k = ''atividades_secundarias''"
      and ok1: "texts_block_ok d ''atividade_principal''" by simp_all
    from texts_block_step [where h=h and r=r and d=d and k="''atividade_principal''"]
      assms(1) ok1
    obtain d1 where
      s1: "rewrite_field join_texts ''atividade_principal'' r h = (None, h(r := PDict d1))"
      and keep1: "\<forall>k'. k' \<noteq> ''atividade_principal'' \<longrightarrow> map_of d1 k' = map_of d k'"
      by blast
    let ?h1 = "h(r := PDict d1)"
    from keep1 k2 assms(2) have at1: "map_of d1 k = Some (PList (map PDict es))" by simp
    have ok: "\<forall>v. map_of d1 k = Some v \<longrightarrow> (\<exists>v'. join_texts v = Inr v')"
      using at1 joined by auto
    from step_ok [where h="?h1" and r=r and d=d1 and k=k and f=join_texts] ok
    obtain d2 where s2: "rewrite_field join_texts k r ?h1 = (None, ?h1(r := PDict d2))"
      and new: "map_of d2 k = Some (PStr (intercalate ''; '' ss))"
      using at1 joined by auto
    let ?rest = "[(''qsa'', join_qsa R), (''billing'', to_str R), (''extra'', to_str R)]"
    have "k \<notin> set (map fst ?rest)" using k2 by simp
    from rewrite_fields_keeps
           [where h="?h1(r := PDict d2)" and r=r and d=d2 and fs="?rest" and k=k] this
    obtain d' where "snd (rewrite_fields ?rest r (?h1(r := PDict d2))) r = PDict d'"
      "map_of d' k = map_of d2 k" by auto
    with s1 s2 new k2 show ?thesis
      by (auto simp: snd_tratar known_fields_def)
  qed
next
  assume k: "k = ''atividade_principal'' \<or>
             k = ''atividades_secundarias'' \<and> texts_block_ok d ''atividade_principal''"
    and ts: "\<forall>ss. ts \<noteq> map PStr ss"
  from join_texts_not_strings [OF assms(3) ts]
  have bad: "join_texts (PList (map PDict es)) = Inl TypeError" .
  from k show "\<exists>h' d'. tratar_dados_aninhados R r h = (Inl TypeError, h') \<and>
                 h' r = PDict d' \<and> map_of d' k = Some (PList (map PDict es))"
  proof
    assume k1: "k = ''atividade_principal''"
    from step_fail [where h=h and r=r and d=d and k=k and f=join_texts
                      and v="PList (map PDict es)" and e=TypeError] assms(1,2) bad
    have "rewrite_field join_texts k r h = (Some TypeError, h)" by simp
    with k1 have "tratar_dados_aninhados R r h = (Inl TypeError, h)"
      by (simp add: tratar_dados_aninhados_def known_fields_def)
    with assms(1,2) show ?thesis by blast
  next
    assume "k = ''atividades_secundarias'' \<and> texts_block_ok d ''atividade_principal''"
    then have k2: "k = ''atividades_secundarias''"
      and ok1: "texts_block_ok d ''atividade_principal''" by simp_all
    from texts_block_step [where h=h and r=r and d=d and k="''atividade_principal''"]
      assms(1) ok1
    obtain d1 where
      s1: "rewrite_field join_texts ''atividade_principal'' r h = (None, h(r := PDict d1))"
      and keep1: "\<forall>k'. k' \<noteq> ''atividade_principal'' \<longrightarrow> map_of d1 k' = map_of d k'"
      by blast
    let ?h1 = "h(r := PDict d1)"
    from keep1 k2 assms(2) have at1: "map_of d1 k = Some (PList (map PDict es))" by simp
    from step_fail [where h="?h1" and r=r and d=d1 and k=k and f=join_texts
                      and v="PList (map PDict es)" and e=TypeError] at1 bad
    have "rewrite_field join_texts k r ?h1 = (Some TypeError, ?h1)" by simp
    with s1 k2 have "tratar_dados_aninhados R r h = (Inl TypeError, ?h1)"
      by (simp add: tratar_dados_aninhados_def known_fields_def)
    with at1 show ?thesis
      by (intro exI [where x="?h1"] exI [where x=d1]) simp
  qed
next
  assume "k = ''atividades_secundarias'' \<and> \<not> texts_block_ok d ''atividade_principal''"
  then have "\<not> texts_block_ok d ''atividade_principal''" by simp
  from texts_block_fail [where h=h and r=r and d=d and k="''atividade_principal''"] assms(1) this
  obtain e where "rewrite_field join_texts ''atividade_principal'' r h = (Some e, h)" by blast
  then have "tratar_dados_aninhados R r h = (Inl e, h)"
    by (simp add: tratar_dados_aninhados_def known_fields_def)
  then show "\<exists>e. tratar_dados_aninhados R r h = (Inl e, h)" by blast
qed

theorem tratar_atividades_witness:
  "snd (tratar_dados_aninhados example_repr 0
          (example_heap (PDict [(''atividade_principal'',
             PList [PDict [(''text'', PStr ''A'')], PDict [(''text'', PStr ''B'')]])]))) 0
     = PDict [(''atividade_principal'', PStr ''A; B'')] \<and>
   snd (tratar_dados_aninhados example_repr 0
          (example_heap (PDict [(''atividade_principal'', PList [PDict [(''text'', PStr ''P'')]]),
             (''atividades_secundarias'',
              PList [PDict [(''text'', PStr ''A'')], PDict [(''text'', PStr ''B'')]])]))) 0
     = PDict [(''atividade_principal'', PStr ''P''), (''atividades_secundarias'', PStr ''A; B'')] \<and>
   fst (tratar_dados_aninhados example_repr 0
          (example_heap (PDict [(''atividade_principal'',
             PList [PDict [(''text'', PStr ''A'')], PDict [(''text'', PNone)]])])))
     = Inl TypeError \<and>
   fst (tratar_dados_aninhados example_repr 0
          (example_heap (PDict [(''atividade_principal'', PNone),
             (''atividades_secundarias'', PList [PDict [(''text'', PStr ''A'')]])])))
     = Inl TypeError"
  using tratar_atividades
    [where h="example_heap (PDict [(''atividade_principal'',
                 PList [PDict [(''text'', PStr ''A'')], PDict [(''text'', PStr ''B'')]])])"
       and r=0 and R=example_repr and k="''atividade_principal''"
       and d="[(''atividade_principal'',
                PList [PDict [(''text'', PStr ''A'')], PDict [(''text'', PStr ''B'')]])]"
       and es="[[(''text'', PStr ''A'')], [(''text'', PStr ''B'')]]"
       and ts="[PStr ''A'', PStr ''B'']"]
    tratar_atividades
    [where h="example_heap (PDict [(''atividade_principal'', PList [PDict [(''text'', PStr ''P'')]]),
                 (''atividades_secundarias'',
                  PList [PDict [(''text'', PStr ''A'')], PDict [(''text'', PStr ''B'')]])])"
       and r=0 and R=example_repr and k="''atividades_secundarias''"
       and d="[(''atividade_principal'', PList [PDict [(''text'', PStr ''P'')]]),
               (''atividades_secundarias'',
                PList [PDict [(''text'', PStr ''A'')], PDict [(''text'', PStr ''B'')]])]"
       and es="[[(''text'', PStr ''A'')], [(''text'', PStr ''B'')]]"
       and ts="[PStr ''A'', PStr ''B'']"]
    tratar_atividades
    [where h="example_heap (PDict [(''atividade_principal'',
                 PList [PDict [(''text'', PStr ''A'')], PDict [(''text'', PNone)]])])"
       and r=0 and R=example_repr and k="''atividade_principal''"
       and d="[(''atividade_principal'',
                PList [PDict [(''text'', PStr ''A'')], PDict [(''text'', PNone)]])]"
       and es="[[(''text'', PStr ''A'')], [(''text'', PNone)]]"
       and ts="[PStr ''A'', PNone]"]
    tratar_atividades
    [where h="example_heap (PDict [(''atividade_principal'', PNone),
                 (''atividades_secundarias'', PList [PDict [(''text'', PStr ''A'')]])])"
       and r=0 and R=example_repr and k="''atividades_secundarias''"
       and d="[(''atividade_principal'', PNone),
               (''atividades_secundarias'', PList [PDict [(''text'', PStr ''A'')]])]"
       and es="[[(''text'', PStr ''A'')]]" and ts="[PStr ''A'']"]
  by (simp add: tratar_dados_aninhados_def known_fields_def rewrite_field_def
        join_texts_def str_join_def example_heap_def)

subsection \<open>\<^verbatim>\<open>qsa\<close>\<close>

text \<open>
  C5, as stated, fails: the blocks run in the order of the source, and this record, whose
  \<^verbatim>\<open>qsa\<close> is as the claim wants it, has \<^verbatim>\<open>null\<close> under \<^verbatim>\<open>atividade_principal\<close>. The
  first block raises \<^verbatim>\<open>TypeError\<close> (\<^verbatim>\<open>None\<close> cannot be iterated), and \<^verbatim>\<open>qsa\<close> is left as
  it was.
\<close>

theorem tratar_qsa_counterexample:
  "tratar_dados_aninhados example_repr 0
     (example_heap (PDict [(''atividade_principal'', PNone),
                           (''qsa'', PList [PDict [(''nome'', PStr ''Maria''),
                                                   (''qual'', PStr ''Socia'')]])]))
   = (Inl TypeError,
      example_heap (PDict [(''atividade_principal'', PNone),
                           (''qsa'', PList [PDict [(''nome'', PStr ''Maria''),
                                                   (''qual'', PStr ''Socia'')]])]))"
  by (simp add: tratar_dados_aninhados_def known_fields_def rewrite_field_def
        join_texts_def example_heap_def)

text \<open>
  C5, amended. Let a record hold under \<^verbatim>\<open>qsa\<close> a list of records whose \<^verbatim>\<open>nome\<close> fields
  hold the values \<open>nomes\<close>. If neither the block of \<^verbatim>\<open>atividade_principal\<close> nor that of
  \<^verbatim>\<open>atividades_secundarias\<close> raises on the record, the normalizer returns, and the record
  then holds under \<^verbatim>\<open>qsa\<close> the single string that joins with \<^verbatim>\<open>"; "\<close>, entry by entry,
  the text \<^verbatim>\<open>"<nome> (<qual-or-empty>)"\<close>, whatever the values of \<^verbatim>\<open>nome\<close> and \<^verbatim>\<open>qual\<close>
  are. If one of these two blocks raises, the normalizer raises and the record still holds
  the list under \<^verbatim>\<open>qsa\<close>.
\<close>

theorem tratar_qsa:
  assumes "h r = PDict d"
    and "map_of d ''qsa'' = Some (PList (map PDict es))"
    and "map (\<lambda>e. map_of e ''nome'') es = map Some nomes"
  shows "(texts_block_ok d ''atividade_principal'' \<and> texts_block_ok d ''atividades_secundarias'' \<longrightarrow>
            (\<exists>h' d'. tratar_dados_aninhados R r h = (Inr r, h') \<and> h' r = PDict d' \<and>
               map_of d' ''qsa'' =
                 Some (PStr (intercalate ''; ''
                        (map2 (\<lambda>n e. spec_qsa_text R n (map_of e ''qual'')) nomes es))))) \<and>
         (\<not> (texts_block_ok d ''atividade_principal'' \<and>
              texts_block_ok d ''atividades_secundarias'') \<longrightarrow>
            (\<exists>e h' d'. tratar_dados_aninhados R r h = (Inl e, h') \<and> h' r = PDict d' \<and>
               map_of d' ''qsa'' = Some (PList (map PDict es))))"
proof (intro conjI impI)
  assume "texts_block_ok d ''atividade_principal'' \<and> texts_block_ok d ''atividades_secundarias''"
  then have ok1: "texts_block_ok d ''atividade_principal''"
    and ok2: "texts_block_ok d ''atividades_secundarias''" by simp_all
  from texts_block_step [where h=h and r=r and d=d and k="''atividade_principal''"] assms(1) ok1
  obtain d1 where s1: "rewrite_field join_texts ''atividade_principal'' r h = (None, h(r := PDict d1))"
    and keep1: "\<forall>k'. k' \<noteq> ''atividade_principal'' \<longrightarrow> map_of d1 k' = map_of d k'"
    by blast
  let ?h1 = "h(r := PDict d1)"
  from keep1 ok2 have ok2': "texts_block_ok d1 ''atividades_secundarias''"
    by (simp add: texts_block_ok_def)
  from texts_block_step [where h="?h1" and r=r and d=d1 and k="''atividades_secundarias''"] ok2'
  obtain d2 where
    s2: "rewrite_field join_texts ''atividades_secundarias'' r ?h1 = (None, ?h1(r := PDict d2))"
    and keep2: "\<forall>k'. k' \<noteq> ''atividades_secundarias'' \<longrightarrow> map_of d2 k' = map_of d1 k'"
    by auto
  let ?h2 = "?h1(r := PDict d2)"
  let ?joined = "PStr (intercalate ''; ''
                   (map2 (\<lambda>n e. spec_qsa_text R n (map_of e ''qual'')) nomes es))"
  from keep1 keep2 assms(2) have at2: "map_of d2 ''qsa'' = Some (PList (map PDict es))" by simp
  have ok3: "\<forall>v. map_of d2 ''qsa'' = Some v \<longrightarrow> (\<exists>v'. join_qsa R v = Inr v')"
    using at2 join_qsa_ok [OF assms(3)] by auto
  from step_ok [where h="?h2" and r=r and d=d2 and k="''qsa''" and f="join_qsa R"] ok3
  obtain d3 where s3: "rewrite_field (join_qsa R) ''qsa'' r ?h2 = (None, ?h2(r := PDict d3))"
    and new: "map_of d3 ''qsa'' = Some ?joined"
    using at2 join_qsa_ok [OF assms(3), of R] by auto
  let ?h3 = "?h2(r := PDict d3)"
  from to_str_step [where h="?h3" and r=r and d=d3 and k="''billing''" and R=R]
  obtain d4 where s4: "rewrite_field (to_str R) ''billing'' r ?h3 = (None, ?h3(r := PDict d4))"
    and keep4: "\<forall>k'. k' \<noteq> ''billing'' \<longrightarrow> map_of d4 k' = map_of d3 k'" by auto
  let ?h4 = "?h3(r := PDict d4)"
  from to_str_step [where h="?h4" and r=r and d=d4 and k="''extra''" and R=R]
  obtain d5 where s5: "rewrite_field (to_str R) ''extra'' r ?h4 = (None, ?h4(r := PDict d5))"
    and keep5: "\<forall>k'. k' \<noteq> ''extra'' \<longrightarrow> map_of d5 k' = map_of d4 k'" by auto
  from s1 s2 s3 s4 s5
  have run: "tratar_dados_aninhados R r h = (Inr r, ?h4(r := PDict d5))"
    by (simp add: tratar_dados_aninhados_def known_fields_def)
  from keep4 keep5 new have "map_of d5 ''qsa'' = Some ?joined" by simp
  with run
  show "\<exists>h' d'. tratar_dados_aninhados R r h = (Inr r, h') \<and> h' r = PDict d' \<and>
          map_of d' ''qsa'' = Some ?joined"
    by (intro exI [where x="?h4(r := PDict d5)"] exI [where x=d5]) simp
next
  assume bad: "\<not> (texts_block_ok d ''atividade_principal'' \<and>
                  texts_block_ok d ''atividades_secundarias'')"
  show "\<exists>e h' d'. tratar_dados_aninhados R r h = (Inl e, h') \<and> h' r = PDict d' \<and>
          map_of d' ''qsa'' = Some (PList (map PDict es))"
  proof (cases "texts_block_ok d ''atividade_principal''")
    case False
    from texts_block_fail [where h=h and r=r and d=d and k="''atividade_principal''"] assms(1) False
    obtain e where "rewrite_field join_texts ''atividade_principal'' r h = (Some e, h)" by blast
    then have "tratar_dados_aninhados R r h = (Inl e, h)"
      by (simp add: tratar_dados_aninhados_def known_fields_def)
    with assms(1,2) show ?thesis by blast
  next
    case True
    with bad have bad2: "\<not> texts_block_ok d ''atividades_secundarias''" by simp
    from texts_block_step [where h=h and r=r and d=d and k="''atividade_principal''"] assms(1) True
    obtain d1 where
      s1: "rewrite_field join_texts ''atividade_principal'' r h = (None, h(r := PDict d1))"
      and keep1: "\<forall>k'. k' \<noteq> ''atividade_principal'' \<longrightarrow> map_of d1 k' = map_of d k'"
      by blast
    let ?h1 = "h(r := PDict d1)"
    from keep1 bad2 have "\<not> texts_block_ok d1 ''atividades_secundarias''"
      by (simp add: texts_block_ok_def)
    from texts_block_fail [where h="?h1" and r=r and d=d1 and k="''atividades_secundarias''"] this
    obtain e where "rewrite_field join_texts ''atividades_secundarias'' r ?h1 = (Some e, ?h1)"
      by auto
    with s1 have "tratar_dados_aninhados R r h = (Inl e, ?h1)"
      by (simp add: tratar_dados_aninhados_def known_fields_def)
    moreover from keep1 assms(2) have "map_of d1 ''qsa'' = Some (PList (map PDict es))" by simp
    ultimately show ?thesis
      by (intro exI [where x=e] exI [where x="?h1"] exI [where x=d1]) simp
  qed
qed


theorem tratar_qsa_witness:
  "tratar_dados_aninhados example_repr 0
     (example_heap (PDict [(''qsa'',
        PList [PDict [(''nome'', PStr ''X''), (''qual'', PStr ''Socio'')],
               PDict [(''nome'', PStr ''Y'')]])]))
   = (Inr 0,
      (example_heap (PDict [(''qsa'',
         PList [PDict [(''nome'', PStr ''X''), (''qual'', PStr ''Socio'')],
                PDict [(''nome'', PStr ''Y'')]])]))
        (0 := PDict [(''qsa'', PStr ''X (Socio); Y ()'')])) \<and>
   snd (tratar_dados_aninhados example_repr 0
          (example_heap (PDict [(''atividades_secundarias'', PList [PDict []]),
             (''qsa'', PList [PDict [(''nome'', PStr ''X'')]])]))) 0
     = PDict [(''atividades_secundarias'', PList [PDict []]),
              (''qsa'', PList [PDict [(''nome'', PStr ''X'')]])]"
  using tratar_qsa
    [where h="example_heap (PDict [(''qsa'',
                 PList [PDict [(''nome'', PStr ''X''), (''qual'', PStr ''Socio'')],
                        PDict [(''nome'', PStr ''Y'')]])])"
       and r=0 and R=example_repr
       and d="[(''qsa'',
                PList [PDict [(''nome'', PStr ''X''), (''qual'', PStr ''Socio'')],
                       PDict [(''nome'', PStr ''Y'')]])]"
       and es="[[(''nome'', PStr ''X''), (''qual'', PStr ''Socio'')], [(''nome'', PStr ''Y'')]]"
       and nomes="[PStr ''X'', PStr ''Y'']"]
    tratar_qsa
    [where h="example_heap (PDict [(''atividades_secundarias'', PList [PDict []]),
                 (''qsa'', PList [PDict [(''nome'', PStr ''X'')]])])"
       and r=0 and R=example_repr
       and d="[(''atividades_secundarias'', PList [PDict []]),
               (''qsa'', PList [PDict [(''nome'', PStr ''X'')]])]"
       and es="[[(''nome'', PStr ''X'')]]" and nomes="[PStr ''X'']"]
  by (simp add: tratar_dados_aninhados_def known_fields_def rewrite_field_def
        join_texts_def join_qsa_def qsa_entry_def str_join_def to_str_def example_heap_def
        fun_eq_iff)

section \<open>Properties of the exporter\<close>

lemma export_guard_dict:
  "export_guard (PDict d) = Inr (d \<noteq> [] \<and> map_of d ''status'' \<noteq> Some (PStr ''ERROR''))"
  by (auto simp: export_guard_def split: option.splits)


lemma salvar_raises:
  assumes "heap w r = PDict d" and "d \<noteq> []"
    and "map_of d ''status'' \<noteq> Some (PStr ''ERROR'')"
    and "tratar_dados_aninhados R r (heap w) = (Inl e, h')"
  shows "salvar_dados_empresa_excel R r nome w =
           (Inl e, w\<lparr>heap := h', trace := trace w @ [Normalize r]\<rparr>)"
  using assms
  by (simp add: salvar_dados_empresa_excel_def export_guard_dict)

lemma salvar_returns:
  assumes "heap w r = PDict d" and "d \<noteq> []"
    and "map_of d ''status'' \<noteq> Some (PStr ''ERROR'')"
    and "tratar_dados_aninhados R r (heap w) = (Inr r', h')"
  shows "\<exists>d'. h' r = PDict d' \<and> map fst d' = map fst d \<and>
           salvar_dados_empresa_excel R r nome w =
             (Inr (),
              w\<lparr>heap := h',
                files := (files w)(nome \<mapsto> [map PStr (map fst d'), map snd d']),
                trace := trace w @ [Normalize r, ToExcel nome, Print (saved_notice nome)]\<rparr>)"
proof -
  from rewrite_fields_inv
         [where h="heap w" and r=r and d=d and fs="known_fields R" and K="set known_keys"]
    assms(1) tratar_Inr [OF assms(4)]
  obtain d' where d': "h' r = PDict d'" and keys: "map fst d' = map fst d"
    by (auto simp: known_keys_fields)
  from assms(4) have r': "r' = r"
    by (auto simp: tratar_dados_aninhados_def split: prod.splits option.splits)
  from assms d' r' have "salvar_dados_empresa_excel R r nome w =
             (Inr (),
              w\<lparr>heap := h',
                files := (files w)(nome \<mapsto> [map PStr (map fst d'), map snd d']),
                trace := trace w @ [Normalize r, ToExcel nome, Print (saved_notice nome)]\<rparr>)"
    by (simp add: salvar_dados_empresa_excel_def export_guard_dict sheet_of_def)
  with d' keys show ?thesis by blast
qed

subsection \<open>The guard\<close>




subsection \<open>The spreadsheet\<close>

text \<open>
  C6, as stated, fails: this record passes the guard, but the entry of its
  \<^verbatim>\<open>atividade_principal\<close> has no \<^verbatim>\<open>text\<close>; the normalizer raises \<^verbatim>\<open>KeyError\<close> and the
  exporter writes no spreadsheet.
\<close>

theorem salvar_writes_counterexample:
  "export_guard (PDict [(''nome'', PStr ''ACME''),
                        (''atividade_principal'', PList [PDict [(''code'', PStr ''62.01-5-01'')]])])
     = Inr True \<and>
   fst (salvar_dados_empresa_excel example_repr 0 default_nome_arquivo
          (example_world (PDict [(''nome'', PStr ''ACME''),
             (''atividade_principal'', PList [PDict [(''code'', PStr ''62.01-5-01'')]])])))
     = Inl (KeyError ''text'') \<and>
   files (snd (salvar_dados_empresa_excel example_repr 0 default_nome_arquivo
          (example_world (PDict [(''nome'', PStr ''ACME''),
             (''atividade_principal'', PList [PDict [(''code'', PStr ''62.01-5-01'')]])]))))
     = Map.empty"
  by (simp add: salvar_dados_empresa_excel_def export_guard_def example_world_def
        example_heap_def tratar_dados_aninhados_def known_fields_def rewrite_field_def
        join_texts_def)

text \<open>
  C6, amended. For a record that is not empty and passes the guard, the exporter first
  calls the normalizer; when the normalizer returns, the exporter then writes, at the
  output path and over whatever file was there, a spreadsheet of exactly two rows: the
  keys of the normalized record in their order (which are the keys of the record as it
  was passed), and its values. There is no cell for a row index. It then prints the
  confirmation and returns.
\<close>

theorem salvar_writes:
  assumes "heap w r = PDict d" and "d \<noteq> []"
    and "map_of d ''status'' \<noteq> Some (PStr ''ERROR'')"
    and "tratar_dados_aninhados R r (heap w) = (Inr r', h')"
  shows "\<exists>d'. h' r = PDict d' \<and> map fst d' = map fst d \<and>
           salvar_dados_empresa_excel R r nome w =
             (Inr (),
              w\<lparr>heap := h',
                files := (files w)(nome \<mapsto> [map PStr (map fst d'), map snd d']),
                trace := trace w @ [Normalize r, ToExcel nome, Print (saved_notice nome)]\<rparr>)"
  using salvar_returns [OF assms] .

theorem salvar_writes_witness:
  "files (snd (salvar_dados_empresa_excel example_repr 0 default_nome_arquivo
                 (example_world (PDict [(''a'', PInt 1), (''b'', PStr ''x'')]))))
     default_nome_arquivo
   = Some [[PStr ''a'', PStr ''b''], [PInt 1, PStr ''x'']]"
proof -
  let ?d = "[(''a'', PInt 1), (''b'', PStr ''x'')]"
  have run: "tratar_dados_aninhados example_repr 0 (heap (example_world (PDict ?d)))
             = (Inr 0, example_heap (PDict ?d))"
    by (simp add: tratar_dados_aninhados_def known_fields_def rewrite_field_def
          example_world_def example_heap_def)
  from salvar_writes
    [where w="example_world (PDict ?d)" and r=0 and d="?d" and R=example_repr and r'=0
       and h'="example_heap (PDict ?d)" and nome=default_nome_arquivo] run
  show ?thesis by (auto simp: example_world_def example_heap_def)
qed

subsection \<open>An exception of the normalizer leaves the exporter and the script\<close>

lemma lacks_nonempty: "lacks_entry_field d \<Longrightarrow> d \<noteq> []"
  by (auto simp: lacks_entry_field_def field_lacks_def)

lemma salvar_missing_raises:
  assumes "heap w r = PDict d" and "map_of d ''status'' \<noteq> Some (PStr ''ERROR'')"
    and "lacks_entry_field d"
  shows "\<exists>e h'. (e = KeyError ''text'' \<or> e = KeyError ''nome'' \<or> e = TypeError) \<and>
           tratar_dados_aninhados R r (heap w) = (Inl e, h') \<and>
           salvar_dados_empresa_excel R r nome w =
             (Inl e, w\<lparr>heap := h', trace := trace w @ [Normalize r]\<rparr>)"
proof -
  from tratar_missing_raises [where h="heap w" and r=r and d=d and R=R] assms(1,3)
  obtain e h' where run: "tratar_dados_aninhados R r (heap w) = (Inl e, h')" by blast
  from tratar_Inl_kind [where h="heap w" and r=r and d=d and R=R and e=e and h'=h'] run assms(1)
  have kind: "e = KeyError ''text'' \<or> e = KeyError ''nome'' \<or> e = TypeError" by simp
  from salvar_raises [where w=w and r=r and d=d and R=R and e=e and h'=h' and nome=nome]
    assms(1,2) lacks_nonempty [OF assms(3)] run
  have "salvar_dados_empresa_excel R r nome w =
          (Inl e, w\<lparr>heap := h', trace := trace w @ [Normalize r]\<rparr>)" by simp
  with run kind show ?thesis by blast
qed

lemma script_missing_raises:
  assumes "obter_dados_empresa_por_cnpj R loads srv cnpj_exemplo (trace w) = (Inr (PDict d), t)"
    and "map_of d ''status'' \<noteq> Some (PStr ''ERROR'')" and "lacks_entry_field d"
  shows "\<exists>e. (e = KeyError ''text'' \<or> e = KeyError ''nome'' \<or> e = TypeError) \<and>
           fst (script R loads srv r w) = Inl e \<and> files (snd (script R loads srv r w)) = files w"
proof -
  let ?w = "w\<lparr>heap := (heap w)(r := PDict d), trace := t\<rparr>"
  from salvar_missing_raises [where w="?w" and r=r and d=d and R=R and nome=default_nome_arquivo]
    assms(2,3)
  obtain e h' where "e = KeyError ''text'' \<or> e = KeyError ''nome'' \<or> e = TypeError"
    "salvar_dados_empresa_excel R r default_nome_arquivo ?w =
       (Inl e, ?w\<lparr>heap := h', trace := trace ?w @ [Normalize r]\<rparr>)"
    by auto
  with assms(1) show ?thesis
    by (auto simp: script_def)
qed


section \<open>Properties of the fetcher\<close>

lemma obter_error_status:
  assumes "request_outcome srv = None" and "getresponse_outcome srv = Inr st" and "st \<noteq> 200"
  shows "obter_dados_empresa_por_cnpj R loads srv cnpj t =
           (Inr (PDict [(''status'', PStr ''ERROR''),
                        (''message'', PStr (''Resposta HTTP com status '' @ str_int st))]),
            t @ [NewConnection api_host, Request ''GET'' (''/v1/cnpj/'' @ cnpj), GetResponse,
                 Print (''Status da Resposta HTTP: '' @ str_int st)])"
  using assms
  by (simp add: obter_dados_empresa_por_cnpj_def error_result_def http_error_message_def)

lemma obter_json_error:
  assumes "request_outcome srv = None" and "getresponse_outcome srv = Inr 200"
    and "read_outcome srv = Inr dados" and "decode_utf8 dados = Inr texto"
    and "loads texto = DecodeFailed diag"
  shows "obter_dados_empresa_por_cnpj R loads srv cnpj t =
           (Inr (error_result json_error_message),
            t @ [NewConnection api_host, Request ''GET'' (''/v1/cnpj/'' @ cnpj), GetResponse,
                 Print (''Status da Resposta HTTP: '' @ str_int 200), ReadBody, CloseConnection,
                 JsonLoads texto, Print (json_error_notice diag)])"
  using assms
  by (simp add: obter_dados_empresa_por_cnpj_def)

lemma obter_parsed:
  assumes "request_outcome srv = None" and "getresponse_outcome srv = Inr 200"
    and "read_outcome srv = Inr dados" and "decode_utf8 dados = Inr texto"
    and "loads texto = Parsed empresa"
  shows "obter_dados_empresa_por_cnpj R loads srv cnpj t =
           (Inr empresa,
            t @ [NewConnection api_host, Request ''GET'' (''/v1/cnpj/'' @ cnpj), GetResponse,
                 Print (''Status da Resposta HTTP: '' @ str_int 200), ReadBody, CloseConnection,
                 JsonLoads texto, Print (''Empresa decodificada: '' @ py_str R empresa)])"
  using assms
  by (simp add: obter_dados_empresa_por_cnpj_def)

lemma obter_loads_raises:
  assumes "request_outcome srv = None" and "getresponse_outcome srv = Inr 200"
    and "read_outcome srv = Inr dados" and "decode_utf8 dados = Inr texto"
    and "loads texto = LoadsRaised e"
  shows "obter_dados_empresa_por_cnpj R loads srv cnpj t =
           (Inl e,
            t @ [NewConnection api_host, Request ''GET'' (''/v1/cnpj/'' @ cnpj), GetResponse,
                 Print (''Status da Resposta HTTP: '' @ str_int 200), ReadBody, CloseConnection,
                 JsonLoads texto])"
  using assms
  by (simp add: obter_dados_empresa_por_cnpj_def)

lemma obter_transport:
  "request_outcome srv = Some e \<Longrightarrow> fst (obter_dados_empresa_por_cnpj R loads srv cnpj t) = Inl e"
  "request_outcome srv = None \<Longrightarrow> getresponse_outcome srv = Inl e \<Longrightarrow>
     fst (obter_dados_empresa_por_cnpj R loads srv cnpj t) = Inl e"
  "request_outcome srv = None \<Longrightarrow> getresponse_outcome srv = Inr 200 \<Longrightarrow>
     read_outcome srv = Inl e \<Longrightarrow>
     fst (obter_dados_empresa_por_cnpj R loads srv cnpj t) = Inl e"
  by (simp_all add: obter_dados_empresa_por_cnpj_def)


subsection \<open>A status other than 200\<close>

text \<open>
  C2. When the response has a status other than 200, whatever it is, the fetcher returns
  the record with \<^verbatim>\<open>status\<close> \<^verbatim>\<open>"ERROR"\<close> and the message that ends with the status code
  in decimal. The events of the call are the opening of the connection, the request,
  \<^verbatim>\<open>getresponse\<close> and the console line with the status: the body is not read and
  \<^verbatim>\<open>json.loads\<close> is not called, and the result depends neither on the body nor on the
  parser.
\<close>

theorem obter_non_200:
  assumes "request_outcome srv = None" and "getresponse_outcome srv = Inr st" and "st \<noteq> 200"
  shows "obter_dados_empresa_por_cnpj R loads srv cnpj t =
           (Inr (PDict [(''status'', PStr ''ERROR''),
                        (''message'', PStr (''Resposta HTTP com status '' @ str_int st))]),
            t @ [NewConnection api_host, Request ''GET'' (''/v1/cnpj/'' @ cnpj), GetResponse,
                 Print (''Status da Resposta HTTP: '' @ str_int st)])"
  using obter_error_status [OF assms] .

theorem obter_non_200_witness:
  "obter_dados_empresa_por_cnpj example_repr example_loads
     \<lparr>request_outcome = None, getresponse_outcome = Inr 404, read_outcome = Inr ''Not Found''\<rparr>
     cnpj_exemplo []
   = (Inr (PDict [(''status'', PStr ''ERROR''),
                  (''message'', PStr ''Resposta HTTP com status 404'')]),
      [NewConnection api_host, Request ''GET'' ''/v1/cnpj/06947283000160'', GetResponse,
       Print ''Status da Resposta HTTP: 404''])"
  using obter_non_200
    [where srv="\<lparr>request_outcome = None, getresponse_outcome = Inr 404,
                  read_outcome = Inr ''Not Found''\<rparr>"
       and st=404 and R=example_repr and loads=example_loads and cnpj=cnpj_exemplo and t="[]"]
  by (simp add: str_int_def digit_def cnpj_exemplo_def)

subsection \<open>A body that is not UTF-8\<close>

text \<open>
  C3 is not what the code does. The body here is a JSON string of three letters, S, a
  with a tilde and o, encoded in Latin-1: the bytes 22 53 E3 6F 22. It is not well-formed
  UTF-8, hence not well-formed JSON. \<^verbatim>\<open>dados.decode("utf-8")\<close> raises
  \<^verbatim>\<open>UnicodeDecodeError\<close>, which \<^verbatim>\<open>except json.JSONDecodeError\<close> does not catch: the
  fetcher raises instead of returning the error record. For a body that decodes,
  \<open>obter_json_error\<close> and \<open>obter_parsed\<close> are what the claim says.
\<close>

theorem obter_undecodable_body:
  "obter_dados_empresa_por_cnpj R loads
     \<lparr>request_outcome = None, getresponse_outcome = Inr 200,
      read_outcome = Inr ([CHR 0x22] @ ''S'' @ [CHR 0xE3] @ ''o'' @ [CHR 0x22])\<rparr> cnpj t
   = (Inl UnicodeDecodeError,
      t @ [NewConnection api_host, Request ''GET'' (''/v1/cnpj/'' @ cnpj), GetResponse,
           Print ''Status da Resposta HTTP: 200'', ReadBody, CloseConnection])"
  by (simp add: obter_dados_empresa_por_cnpj_def decode_utf8_def str_int_def digit_def
        cont_def second_of_3_def)

subsection \<open>The connection on the path of an error status\<close>

text \<open>
  C9 is not what the code does. On a status other than 200, here 503, the fetcher returns
  at once: the trace of the call ends with the console line, with no \<^verbatim>\<open>read\<close> and no
  \<^verbatim>\<open>close\<close>. On the paths of status 200 both are there, in this order, before
  \<^verbatim>\<open>json.loads\<close> (\<open>obter_json_error\<close>, \<open>obter_parsed\<close>).
\<close>

theorem obter_error_status_no_close:
  "obter_dados_empresa_por_cnpj R loads
     \<lparr>request_outcome = None, getresponse_outcome = Inr 503, read_outcome = Inr dados\<rparr> cnpj []
   = (Inr (PDict [(''status'', PStr ''ERROR''),
                  (''message'', PStr ''Resposta HTTP com status 503'')]),
      [NewConnection api_host, Request ''GET'' (''/v1/cnpj/'' @ cnpj), GetResponse,
       Print ''Status da Resposta HTTP: 503''])"
  by (simp add: obter_dados_empresa_por_cnpj_def error_result_def http_error_message_def
        str_int_def digit_def)

subsection \<open>What is raised and what is recovered\<close>

text \<open>
  The part of C8 that the code does. A record that passes the guard and in which an entry
  of \<^verbatim>\<open>atividade_principal\<close> or \<^verbatim>\<open>atividades_secundarias\<close> lacks \<^verbatim>\<open>text\<close>, or an entry
  of \<^verbatim>\<open>qsa\<close> lacks \<^verbatim>\<open>nome\<close>, makes the normalizer raise a \<^verbatim>\<open>KeyError\<close> or a
  \<^verbatim>\<open>TypeError\<close>; the exporter raises the same exception, and so does the script when the
  fetcher returned that record: the run ends there, no file is written, and no error record
  is made of it. In the fetcher, a status other than 200 and a \<^verbatim>\<open>JSONDecodeError\<close> of
  \<^verbatim>\<open>json.loads\<close> are turned into the error record, which is returned; an exception of
  \<^verbatim>\<open>request\<close>, of \<^verbatim>\<open>getresponse\<close> or of \<^verbatim>\<open>read\<close> is raised to the caller, and so is
  any other exception of \<^verbatim>\<open>json.loads\<close> (\<open>obter_loads_raises\<close>).
\<close>

lemma failures_raised_or_recovered:
  "(heap w r = PDict d \<and> map_of d ''status'' \<noteq> Some (PStr ''ERROR'') \<and> lacks_entry_field d \<longrightarrow>
      (\<exists>e h'. (e = KeyError ''text'' \<or> e = KeyError ''nome'' \<or> e = TypeError) \<and>
         tratar_dados_aninhados R r (heap w) = (Inl e, h') \<and>
         salvar_dados_empresa_excel R r nome w =
           (Inl e, w\<lparr>heap := h', trace := trace w @ [Normalize r]\<rparr>))) \<and>
   (obter_dados_empresa_por_cnpj R loads srv cnpj_exemplo (trace w) = (Inr (PDict d), t') \<and>
    map_of d ''status'' \<noteq> Some (PStr ''ERROR'') \<and> lacks_entry_field d \<longrightarrow>
      (\<exists>e. (e = KeyError ''text'' \<or> e = KeyError ''nome'' \<or> e = TypeError) \<and>
         fst (script R loads srv r w) = Inl e \<and>
         files (snd (script R loads srv r w)) = files w)) \<and>
   (request_outcome srv = None \<and> getresponse_outcome srv = Inr st \<and> st \<noteq> 200 \<longrightarrow>
      fst (obter_dados_empresa_por_cnpj R loads srv cnpj t) =
        Inr (error_result (http_error_message st))) \<and>
   (request_outcome srv = None \<and> getresponse_outcome srv = Inr 200 \<and>
    read_outcome srv = Inr dados \<and> decode_utf8 dados = Inr texto \<and>
    loads texto = DecodeFailed diag \<longrightarrow>
      fst (obter_dados_empresa_por_cnpj R loads srv cnpj t) =
        Inr (error_result json_error_message)) \<and>
   (request_outcome srv = Some x \<longrightarrow>
      fst (obter_dados_empresa_por_cnpj R loads srv cnpj t) = Inl x) \<and>
   (request_outcome srv = None \<and> getresponse_outcome srv = Inl x \<longrightarrow>
      fst (obter_dados_empresa_por_cnpj R loads srv cnpj t) = Inl x) \<and>
   (request_outcome srv = None \<and> getresponse_outcome srv = Inr 200 \<and>
    read_outcome srv = Inl x \<longrightarrow>
      fst (obter_dados_empresa_por_cnpj R loads srv cnpj t) = Inl x)"
proof (intro conjI impI; (elim conjE)?)
  assume "heap w r = PDict d" "map_of d ''status'' \<noteq> Some (PStr ''ERROR'')"
    "lacks_entry_field d"
  from salvar_missing_raises [OF this]
  show "\<exists>e h'. (e = KeyError ''text'' \<or> e = KeyError ''nome'' \<or> e = TypeError) \<and>
         tratar_dados_aninhados R r (heap w) = (Inl e, h') \<and>
         salvar_dados_empresa_excel R r nome w =
           (Inl e, w\<lparr>heap := h', trace := trace w @ [Normalize r]\<rparr>)" .
next
  assume "obter_dados_empresa_por_cnpj R loads srv cnpj_exemplo (trace w) = (Inr (PDict d), t')"
    "map_of d ''status'' \<noteq> Some (PStr ''ERROR'')" "lacks_entry_field d"
  from script_missing_raises [OF this]
  show "\<exists>e. (e = KeyError ''text'' \<or> e = KeyError ''nome'' \<or> e = TypeError) \<and>
         fst (script R loads srv r w) = Inl e \<and>
         files (snd (script R loads srv r w)) = files w" .
next
  assume "request_outcome srv = None" "getresponse_outcome srv = Inr st" "st \<noteq> 200"
  from obter_error_status [OF this]
  show "fst (obter_dados_empresa_por_cnpj R loads srv cnpj t) =
          Inr (error_result (http_error_message st))"
    by (simp add: error_result_def http_error_message_def)
next
  assume "request_outcome srv = None" "getresponse_outcome srv = Inr 200"
    "read_outcome srv = Inr dados" "decode_utf8 dados = Inr texto"
    "loads texto = DecodeFailed diag"
  from obter_json_error
         [where srv=srv and dados=dados and texto=texto and loads=loads and diag=diag
            and R=R and cnpj=cnpj and t=t] this
  show "fst (obter_dados_empresa_por_cnpj R loads srv cnpj t) =
          Inr (error_result json_error_message)"
    by simp
next
  assume "request_outcome srv = Some x"
  then show "fst (obter_dados_empresa_por_cnpj R loads srv cnpj t) = Inl x"
    by (rule obter_transport(1))
next
  assume "request_outcome srv = None" "getresponse_outcome srv = Inl x"
  then show "fst (obter_dados_empresa_por_cnpj R loads srv cnpj t) = Inl x"
    by (rule obter_transport(2))
next
  assume "request_outcome srv = None" "getresponse_outcome srv = Inr 200"
    "read_outcome srv = Inl x"
  then show "fst (obter_dados_empresa_por_cnpj R loads srv cnpj t) = Inl x"
    by (rule obter_transport(3))
qed

lemma failures_raised_or_recovered_example:
  "fst (salvar_dados_empresa_excel example_repr 0 default_nome_arquivo
          (example_world (PDict [(''qsa'', PList [PDict [(''qual'', PStr ''Socio'')]])])))
     = Inl (KeyError ''nome'') \<and>
   fst (obter_dados_empresa_por_cnpj example_repr example_loads
          \<lparr>request_outcome = None, getresponse_outcome = Inr 500, read_outcome = Inr []\<rparr>
          cnpj_exemplo [])
     = Inr (error_result ''Resposta HTTP com status 500'') \<and>
   fst (obter_dados_empresa_por_cnpj example_repr example_loads
          \<lparr>request_outcome = None, getresponse_outcome = Inr 200,
           read_outcome = Inr ''<html>''\<rparr> cnpj_exemplo [])
     = Inr (error_result json_error_message) \<and>
   fst (obter_dados_empresa_por_cnpj example_repr example_loads
          \<lparr>request_outcome = Some (TransportError ''timed out''),
           getresponse_outcome = Inr 200, read_outcome = Inr ''{}''\<rparr> cnpj_exemplo [])
     = Inl (TransportError ''timed out'')"
  using failures_raised_or_recovered
    [where w="example_world (PDict [(''qsa'', PList [PDict [(''qual'', PStr ''Socio'')]])])"
       and r=0 and d="[(''qsa'', PList [PDict [(''qual'', PStr ''Socio'')]])]"
       and R=example_repr and nome=default_nome_arquivo and loads=example_loads
       and srv="\<lparr>request_outcome = None, getresponse_outcome = Inr 500,
                 read_outcome = Inr []\<rparr>"
       and st=500 and cnpj=cnpj_exemplo and t="[]"]
    failures_raised_or_recovered
    [where R=example_repr and loads=example_loads
       and srv="\<lparr>request_outcome = None, getresponse_outcome = Inr 200,
                 read_outcome = Inr ''<html>''\<rparr>"
       and dados="''<html>''" and texto="''<html>''"
       and diag="''Expecting value: line 1 column 1 (char 0)''"
       and cnpj=cnpj_exemplo and t="[]"]
    failures_raised_or_recovered
    [where R=example_repr and loads=example_loads
       and srv="\<lparr>request_outcome = Some (TransportError ''timed out''),
                 getresponse_outcome = Inr 200, read_outcome = Inr ''{}''\<rparr>"
       and x="TransportError ''timed out''" and cnpj=cnpj_exemplo and t="[]"]
  by (simp add: example_world_def example_heap_def example_loads_def
        lacks_entry_field_def field_lacks_def decode_utf8_def
        http_error_message_def str_int_def digit_def
        salvar_dados_empresa_excel_def export_guard_def tratar_dados_aninhados_def
        known_fields_def rewrite_field_def join_qsa_def qsa_entry_def)

text \<open>
  C8 is not what the code does in its second half: not every failure inside the fetcher is
  turned into an error record. When \<^verbatim>\<open>conexao.request\<close> raises, here because the host name
  does not resolve, the fetcher raises. When the body is not UTF-8, the bytes of the
  section above, the fetcher raises \<^verbatim>\<open>UnicodeDecodeError\<close>, and the script ends with that
  exception before the exporter is called: nothing is written.
\<close>

theorem fetcher_failures_raised:
  "fst (obter_dados_empresa_por_cnpj R loads
          \<lparr>request_outcome = Some (TransportError ''Name or service not known''),
           getresponse_outcome = Inr 200, read_outcome = Inr ''{}''\<rparr> cnpj t)
     = Inl (TransportError ''Name or service not known'') \<and>
   script R loads
     \<lparr>request_outcome = None, getresponse_outcome = Inr 200,
      read_outcome = Inr ([CHR 0x22] @ ''S'' @ [CHR 0xE3] @ ''o'' @ [CHR 0x22])\<rparr> r w
     = (Inl UnicodeDecodeError,
        w\<lparr>trace := trace w @
             [NewConnection api_host, Request ''GET'' (''/v1/cnpj/'' @ cnpj_exemplo),
              GetResponse, Print ''Status da Resposta HTTP: 200'', ReadBody,
              CloseConnection]\<rparr>)"
  by (simp add: script_def obter_dados_empresa_por_cnpj_def decode_utf8_def str_int_def
        digit_def cont_def second_of_3_def)

end
